theory Spec2Isabelle
  imports Main "HOL-Library.Word"
begin

section \<open>JavaScript values\<close>

text \<open>
  A JavaScript string is a sequence of UTF-16 code units: \<open>length\<close>, \<open>slice\<close> and
  \<open>trim\<close> of the source count and cut code units. \<open>lit\<close> embeds the ASCII text of a
  string literal of the source.
\<close>

type_synonym jsstring = "16 word list"

definition lit :: "string \<Rightarrow> jsstring" where
  "lit s = map of_char s"

text \<open>
  The values a parsed JSON body and the variables of the program can hold. A JSON number
  only ever reaches a truthiness test in this program, so an integer stands for it.
  \<open>JFunction\<close> is a built-in method read as a property (never called through this
  value); an object is the list of its own properties, each name once.
\<close>

datatype jsval =
    JUndefined
  | JNull
  | JBool bool
  | JNum int
  | JStr jsstring
  | JArr "jsval list"
  | JObj "(jsstring \<times> jsval) list"
  | JFunction jsstring

text \<open>
  What a rejected promise or a \<open>throw\<close> carries: a \<open>TypeError\<close> raised by the language
  itself (a property read on \<open>undefined\<close> or \<open>null\<close>, a call of something that is not a
  function), or an error object of a library with its \<open>message\<close> and, for an HTTP error
  of axios, its \<open>response.data\<close> (\<open>JUndefined\<close> when there is none).
\<close>

datatype exn = TypeError | Thrown jsstring jsval

fun truthy :: "jsval \<Rightarrow> bool" where
  "truthy JUndefined = False"
| "truthy JNull = False"
| "truthy (JBool b) = b"
| "truthy (JNum n) = (n \<noteq> 0)"
| "truthy (JStr s) = (s \<noteq> [])"
| "truthy (JArr xs) = True"
| "truthy (JObj kvs) = True"
| "truthy (JFunction f) = True"

fun nullish :: "jsval \<Rightarrow> bool" where
  "nullish JUndefined = True"
| "nullish JNull = True"
| "nullish v = False"

text \<open>
  \<open>js_prop v k\<close> is the property read \<open>v.k\<close> for the names this program reads
  (\<open>items\<close>, \<open>title\<close>, \<open>link\<close>, \<open>choices\<close>, \<open>message\<close>, \<open>content\<close>, \<open>candidates\<close>,
  \<open>parts\<close>, \<open>text\<close>). None of them is an inherited property of an object, an array, a
  number or a boolean; on a string, \<open>link\<close> is the method \<open>String.prototype.link\<close>.
\<close>

fun js_prop :: "jsval \<Rightarrow> jsstring \<Rightarrow> exn + jsval" where
  "js_prop JUndefined k = Inl TypeError"
| "js_prop JNull k = Inl TypeError"
| "js_prop (JObj kvs) k = Inr (case map_of kvs k of None \<Rightarrow> JUndefined | Some v \<Rightarrow> v)"
| "js_prop (JStr s) k = Inr (if k = lit ''link'' then JFunction k else JUndefined)"
| "js_prop v k = Inr JUndefined"

text \<open>\<open>js_first v\<close> is the element read \<open>v[0]\<close>.\<close>

fun js_first :: "jsval \<Rightarrow> exn + jsval" where
  "js_first JUndefined = Inl TypeError"
| "js_first JNull = Inl TypeError"
| "js_first (JArr xs) = Inr (case xs of [] \<Rightarrow> JUndefined | x # _ \<Rightarrow> x)"
| "js_first (JStr s) = Inr (case s of [] \<Rightarrow> JUndefined | c # _ \<Rightarrow> JStr [c])"
| "js_first (JObj kvs) = Inr (case map_of kvs (lit ''0'') of None \<Rightarrow> JUndefined | Some v \<Rightarrow> v)"
| "js_first v = Inr JUndefined"

text \<open>
  \<open>String.prototype.trim\<close> removes the white space and line terminators of ECMAScript
  from both ends.
\<close>

definition is_ws :: "16 word \<Rightarrow> bool" where
  "is_ws c \<longleftrightarrow>
     c \<in> {0x9, 0xA, 0xB, 0xC, 0xD, 0x20, 0xA0, 0x1680, 0x2028, 0x2029, 0x202F, 0x205F,
          0x3000, 0xFEFF}
     \<or> (0x2000 \<le> c \<and> c \<le> 0x200A)"

definition js_trim :: "jsstring \<Rightarrow> jsstring" where
  "js_trim s = rev (dropWhile is_ws (rev (dropWhile is_ws s)))"

text \<open>
  The method call \<open>v.trim()\<close>: only a string has the method; on \<open>undefined\<close> and \<open>null\<close>
  the property read throws, on anything else \<open>trim\<close> is not a function.
\<close>

fun js_trim_call :: "jsval \<Rightarrow> exn + jsstring" where
  "js_trim_call (JStr s) = Inr (js_trim s)"
| "js_trim_call v = Inl TypeError"

text \<open>
  \<open>slice(start, fin)\<close> of strings and arrays, on integer arguments: a negative index
  counts from the end, and both are clamped to the length.
\<close>

definition js_slice :: "int \<Rightarrow> int \<Rightarrow> 'a list \<Rightarrow> 'a list" where
  "js_slice start fin xs =
     (let n = int (length xs);
          from = (if start < 0 then max (n + start) 0 else min start n);
          to = (if fin < 0 then max (n + fin) 0 else min fin n)
      in take (nat (to - from)) (drop (nat from) xs))"

text \<open>\<open>Array.prototype.join\<close> on an array of strings.\<close>

fun js_join :: "jsstring \<Rightarrow> jsstring list \<Rightarrow> jsstring" where
  "js_join sep [] = []"
| "js_join sep [x] = x"
| "js_join sep (x # y # ys) = x @ sep @ js_join sep (y # ys)"

section \<open>The outside world and the state of a run\<close>

text \<open>
  A result locator, as \<open>googleSearch\<close> builds it: \<open>title\<close> and \<open>link\<close> are whatever the
  item of the response held under these names (\<open>JUndefined\<close> when it held nothing).
\<close>

record locator =
  title :: jsval
  link :: jsval

text \<open>
  The lines the program prints. Each constructor stands for one \<open>console\<close> call of the
  source and carries the values interpolated into it:
  \<^item> \<open>GoogleSearchError e\<close>, \<open>OpenAIError e\<close>, \<open>GeminiError e\<close>: the \<open>console.error\<close>
    of the three \<open>catch\<close> blocks, printing \<open>e.response?.data || e.message\<close>;
  \<^item> \<open>GotContent n\<close>: \<open>(Got n content)\<close>; \<open>FailedToFetch url e\<close>: \<open>Failed to fetch
    content from url:\<close> with \<open>e.message\<close>;
  \<^item> in \<open>main\<close>: \<open>Searching q\<close>, \<open>NoResultsFound\<close> (\<open>No results found.\<close>),
    \<open>FetchingTop n\<close>, \<open>FetchingFrom url\<close>, \<open>InvalidFetchLibrary\<close> (\<open>Invalid fetch
    library specified.\<close>), \<open>GeneratingSummary m\<close> (\<open>m\<close> the model selector in upper case)
    and \<open>Summary s\<close>.
\<close>

datatype console_msg =
    GoogleSearchError exn
  | GotContent nat
  | FailedToFetch jsval exn
  | OpenAIError exn
  | GeminiError exn
  | Searching jsstring
  | NoResultsFound
  | FetchingTop int
  | FetchingFrom jsval
  | InvalidFetchLibrary
  | GeneratingSummary jsstring
  | Summary jsstring

text \<open>The calls of the two pluggable stages, with their arguments.\<close>

datatype invocation =
    FetchPageContentWithPuppeteer jsval
  | FetchPageContentWithCheerio jsval
  | SummarizeWithOpenAI jsstring "jsstring list"
  | SummarizeWithGemini jsstring "jsstring list"

text \<open>
  What a run does, in order: the lines it prints, the requests it sends and the library
  calls it makes (a browser is named by the number of its launch), and, as bookkeeping,
  each call of a fetch or synthesis function and the string it returned.
\<close>

datatype event =
    Console console_msg
  | Invoked invocation
  | Returned invocation jsstring
  | AxiosGetSearch jsstring
  | AxiosGetPage jsval
  | PuppeteerLaunch
  | BrowserNewPage nat
  | PageGoto nat jsval
  | PageEvaluate nat
  | BrowserClose nat
  | AxiosPostOpenAI jsval
  | AxiosPostGemini jsval

text \<open>
  The outside world answers each external call; an answer may depend on everything that
  happened before (the events so far). \<open>Inl e\<close> and \<open>Some e\<close> are a rejected promise.
  \<^item> \<open>search_reply\<close>: \<open>axios.get\<close> of the Custom Search URL built from the query and the
    two keys; \<open>Inr d\<close> is \<open>response.data\<close>;
  \<^item> \<open>page_reply\<close>: \<open>axios.get(url)\<close> under its 5 s abort signal, then \<open>cheerio.load\<close>
    and the text of each \<open>p\<close> element, in document order;
  \<^item> \<open>launch_reply\<close>, \<open>newPage_reply\<close>, \<open>goto_reply\<close>, \<open>close_reply\<close>: the puppeteer
    calls of these names; \<open>evaluate_reply\<close>: the \<open>innerText\<close> of each \<open>p\<close> element of
    the rendered page;
  \<^item> \<open>openai_reply\<close>, \<open>gemini_reply\<close>: \<open>axios.post\<close> of the request body; \<open>Inr d\<close> is
    \<open>response.data\<close>.
  The last field is no call to the outside: \<open>upper_case\<close> is the case mapping that
  \<open>String.prototype.toUpperCase\<close> applies, a table of the runtime.
\<close>

record world =
  search_reply :: "event list \<Rightarrow> jsstring \<Rightarrow> exn + jsval"
  page_reply :: "event list \<Rightarrow> jsval \<Rightarrow> exn + jsstring list"
  launch_reply :: "event list \<Rightarrow> exn option"
  newPage_reply :: "event list \<Rightarrow> nat \<Rightarrow> exn option"
  goto_reply :: "event list \<Rightarrow> nat \<Rightarrow> jsval \<Rightarrow> exn option"
  evaluate_reply :: "event list \<Rightarrow> nat \<Rightarrow> exn + jsstring list"
  close_reply :: "event list \<Rightarrow> nat \<Rightarrow> exn option"
  openai_reply :: "event list \<Rightarrow> jsval \<Rightarrow> exn + jsval"
  gemini_reply :: "event list \<Rightarrow> jsval \<Rightarrow> exn + jsval"
  upper_case :: "jsstring \<Rightarrow> jsstring"

text \<open>
  The state threaded through a run: the events so far, the browsers launched and not
  yet closed, and the number of launches (the name of the next browser).
\<close>

record state =
  trace :: "event list"
  live :: "nat list"
  launched :: nat

definition emit :: "event \<Rightarrow> state \<Rightarrow> state" where
  "emit e s = s\<lparr>trace := trace s @ [e]\<rparr>"

section \<open>Fetching the content of a page\<close>

text \<open>
  The \<open>try\<close> block of \<open>fetchPageContentWithPuppeteer\<close>: its outcome, the variable
  \<open>browser\<close> as the block leaves it, and the state.
\<close>

definition puppeteer_try :: "world \<Rightarrow> jsval \<Rightarrow> state \<Rightarrow> (exn + jsstring) \<times> nat option \<times> state" where
  "puppeteer_try w url s0 =
     (let s1 = emit PuppeteerLaunch s0 in
      case launch_reply w (trace s1) of
        Some e \<Rightarrow> (Inl e, None, s1)
      | None \<Rightarrow>
          (let b = launched s1;
               s2 = s1\<lparr>live := b # live s1, launched := Suc b\<rparr>;
               s3 = emit (BrowserNewPage b) s2 in
           case newPage_reply w (trace s3) b of
             Some e \<Rightarrow> (Inl e, Some b, s3)
           | None \<Rightarrow>
               (let s4 = emit (PageGoto b url) s3 in
                case goto_reply w (trace s4) b url of
                  Some e \<Rightarrow> (Inl e, Some b, s4)
                | None \<Rightarrow>
                    (let s5 = emit (PageEvaluate b) s4 in
                     case evaluate_reply w (trace s5) b of
                       Inl e \<Rightarrow> (Inl e, Some b, s5)
                     | Inr paragraphs \<Rightarrow>
                         (let content = js_join (lit '' '') paragraphs;
                              s6 = emit (Console (GotContent (length content))) s5 in
                          (Inr (if length (js_trim content) > 100
                                then js_slice 0 2000 content
                                else lit ''No meaningful content found.''),
                           Some b, s6))))))"

text \<open>
  The whole function: the \<open>catch\<close> turns an error of the \<open>try\<close> block into the
  sentinel, then the \<open>finally\<close> closes the browser if there is one. An error of
  \<open>browser.close()\<close> is thrown from the \<open>finally\<close> and replaces the return value.
\<close>

definition fetchPageContentWithPuppeteer :: "world \<Rightarrow> jsval \<Rightarrow> state \<Rightarrow> (exn + jsstring) \<times> state" where
  "fetchPageContentWithPuppeteer w url s =
     (case puppeteer_try w url (emit (Invoked (FetchPageContentWithPuppeteer url)) s) of
        (r, browser, s1) \<Rightarrow>
          (let (v, s2) =
                 (case r of
                    Inr v \<Rightarrow> (v, s1)
                  | Inl e \<Rightarrow> (lit ''Error fetching content.'',
                              emit (Console (FailedToFetch url e)) s1))
           in case browser of
                None \<Rightarrow> (Inr v, emit (Returned (FetchPageContentWithPuppeteer url) v) s2)
              | Some b \<Rightarrow>
                  (let s3 = emit (BrowserClose b) s2 in
                   case close_reply w (trace s3) b of
                     Some e \<Rightarrow> (Inl e, s3)
                   | None \<Rightarrow>
                       (Inr v, emit (Returned (FetchPageContentWithPuppeteer url) v)
                                 (s3\<lparr>live := remove1 b (live s3)\<rparr>)))))"

text \<open>\<open>fetchPageContentWithCheerio\<close>: the \<open>try\<close> block, then the function with its \<open>catch\<close>.\<close>

definition cheerio_try :: "world \<Rightarrow> jsval \<Rightarrow> state \<Rightarrow> (exn + jsstring) \<times> state" where
  "cheerio_try w url s0 =
     (let s1 = emit (AxiosGetPage url) s0 in
      case page_reply w (trace s1) url of
        Inl e \<Rightarrow> (Inl e, s1)
      | Inr paragraphs \<Rightarrow>
          (let content = js_join (lit '' '') paragraphs;
               s2 = emit (Console (GotContent (length content))) s1 in
           (Inr (if length (js_trim content) > 100
                 then js_slice 0 2000 content
                 else lit ''No meaningful content found.''),
            s2)))"

definition fetchPageContentWithCheerio :: "world \<Rightarrow> jsval \<Rightarrow> state \<Rightarrow> (exn + jsstring) \<times> state" where
  "fetchPageContentWithCheerio w url s =
     (case cheerio_try w url (emit (Invoked (FetchPageContentWithCheerio url)) s) of
        (r, s1) \<Rightarrow>
          (let (v, s2) =
                 (case r of
                    Inr v \<Rightarrow> (v, s1)
                  | Inl e \<Rightarrow> (lit ''Error fetching content.'',
                              emit (Console (FailedToFetch url e)) s1))
           in (Inr v, emit (Returned (FetchPageContentWithCheerio url) v) s2)))"

section \<open>Configuration\<close>

text \<open>
  The values read once at startup. The query is the words of the command line joined
  by spaces; the program exits before \<open>main\<close> when it is empty. The result count is an
  integer. The fetch selector is only ever compared with two strings, so a string
  stands for it. The model selector is kept as the argument parser delivers it: a
  string, but also a number (\<open>--model 7\<close>), \<open>true\<close> (a bare \<open>--model\<close>) or an array (the
  flag given twice), because \<open>main\<close> calls a string method on it.
\<close>

record config =
  fetchLibrary :: jsstring
  numResults :: int
  model :: jsval
  query :: jsstring

section \<open>Searching\<close>

text \<open>The callback of \<open>map\<close> applied to each item in turn; a \<open>null\<close> item throws.\<close>

fun map_items :: "jsval list \<Rightarrow> exn + locator list" where
  "map_items [] = Inr []"
| "map_items (item # rest) =
     (case js_prop item (lit ''title'') of
        Inl e \<Rightarrow> Inl e
      | Inr t \<Rightarrow>
          (case js_prop item (lit ''link'') of
             Inl e \<Rightarrow> Inl e
           | Inr l \<Rightarrow>
               (case map_items rest of
                  Inl e \<Rightarrow> Inl e
                | Inr rs \<Rightarrow> Inr (\<lparr>title = t, link = l\<rparr> # rs))))"

text \<open>
  The \<open>try\<close> block of \<open>googleSearch\<close>. The request is named by the query: its URL is
  the query, percent-encoded, with the two keys. Only an array has both \<open>slice\<close> and
  \<open>map\<close>: on any other truthy value of \<open>items\<close> one of the two calls throws.
\<close>

definition googleSearch_try :: "config \<Rightarrow> world \<Rightarrow> jsstring \<Rightarrow> state \<Rightarrow> (exn + locator list) \<times> state" where
  "googleSearch_try cfg w q s0 =
     (let s1 = emit (AxiosGetSearch q) s0 in
      case search_reply w (trace s1) q of
        Inl e \<Rightarrow> (Inl e, s1)
      | Inr d \<Rightarrow>
          (case js_prop d (lit ''items'') of
             Inl e \<Rightarrow> (Inl e, s1)
           | Inr v \<Rightarrow>
               (let items = (if truthy v then v else JArr []) in
                case items of
                  JArr xs \<Rightarrow> (map_items (js_slice 0 (numResults cfg) xs), s1)
                | _ \<Rightarrow> (Inl TypeError, s1))))"

definition googleSearch :: "config \<Rightarrow> world \<Rightarrow> jsstring \<Rightarrow> state \<Rightarrow> (exn + locator list) \<times> state" where
  "googleSearch cfg w q s =
     (case googleSearch_try cfg w q s of
        (Inr rs, s1) \<Rightarrow> (Inr rs, s1)
      | (Inl e, s1) \<Rightarrow> (Inr [], emit (Console (GoogleSearchError e)) s1))"

section \<open>Synthesis\<close>

text \<open>The expression \<open>response.data.choices[0].message.content.trim()\<close>.\<close>

definition openai_text :: "jsval \<Rightarrow> exn + jsstring" where
  "openai_text d =
     (case js_prop d (lit ''choices'') of
        Inl e \<Rightarrow> Inl e
      | Inr choices \<Rightarrow>
          (case js_first choices of
             Inl e \<Rightarrow> Inl e
           | Inr c0 \<Rightarrow>
               (case js_prop c0 (lit ''message'') of
                  Inl e \<Rightarrow> Inl e
                | Inr m \<Rightarrow>
                    (case js_prop m (lit ''content'') of
                       Inl e \<Rightarrow> Inl e
                     | Inr c \<Rightarrow> js_trim_call c))))"

text \<open>
  The request of \<open>summarizeWithOpenAI\<close>: the text of the user message, the two
  messages, and the body posted with them (the key travels in a header).
\<close>

definition openai_prompt :: "jsstring \<Rightarrow> jsstring list \<Rightarrow> jsstring" where
  "openai_prompt q contents =
     lit (''Generate new content that answers the query: '' @ [CHR 0x22])
     @ q
     @ lit ([CHR 0x22] @ ''\<newline>\<newline>Here is the information gathered from various sources:\<newline>\<newline>'')
     @ js_join (lit ''\<newline>\<newline>'') contents"

definition openai_messages :: "jsstring \<Rightarrow> jsstring list \<Rightarrow> jsval" where
  "openai_messages q contents =
     JArr [JObj [(lit ''role'', JStr (lit ''system'')),
                 (lit ''content'', JStr (lit ''You are an assistant that generates a new, comprehensive response based on provided content. Synthesize new insights while being informative and cohesive.''))],
           JObj [(lit ''role'', JStr (lit ''user'')),
                 (lit ''content'', JStr (openai_prompt q contents))]]"

definition openai_body :: "jsstring \<Rightarrow> jsstring list \<Rightarrow> jsval" where
  "openai_body q contents =
     JObj [(lit ''model'', JStr (lit ''gpt-4-turbo'')),
           (lit ''messages'', openai_messages q contents),
           (lit ''max_tokens'', JNum 250)]"

definition summarizeWithOpenAI :: "world \<Rightarrow> jsstring \<Rightarrow> jsstring list \<Rightarrow> state \<Rightarrow> (exn + jsstring) \<times> state" where
  "summarizeWithOpenAI w q contents s =
     (let s0 = emit (Invoked (SummarizeWithOpenAI q contents)) s;
          body = openai_body q contents;
          s1 = emit (AxiosPostOpenAI body) s0
      in case (case openai_reply w (trace s1) body of
                 Inl e \<Rightarrow> Inl e
               | Inr d \<Rightarrow> openai_text d) of
           Inr v \<Rightarrow> (Inr v, emit (Returned (SummarizeWithOpenAI q contents) v) s1)
         | Inl e \<Rightarrow>
             (Inr (lit ''Error generating summary.''),
              emit (Returned (SummarizeWithOpenAI q contents) (lit ''Error generating summary.''))
                (emit (Console (OpenAIError e)) s1)))"

text \<open>
  The expression \<open>response.data.candidates[0]?.content?.parts[0]?.text.trim()\<close>:
  \<open>None\<close> is the \<open>undefined\<close> of a short-circuited optional chain.
\<close>

definition gemini_text :: "jsval \<Rightarrow> exn + jsstring option" where
  "gemini_text d =
     (case js_prop d (lit ''candidates'') of
        Inl e \<Rightarrow> Inl e
      | Inr candidates \<Rightarrow>
          (case js_first candidates of
             Inl e \<Rightarrow> Inl e
           | Inr c0 \<Rightarrow>
               if nullish c0 then Inr None
               else
                 (case js_prop c0 (lit ''content'') of
                    Inl e \<Rightarrow> Inl e
                  | Inr c \<Rightarrow>
                      if nullish c then Inr None
                      else
                        (case js_prop c (lit ''parts'') of
                           Inl e \<Rightarrow> Inl e
                         | Inr parts \<Rightarrow>
                             (case js_first parts of
                                Inl e \<Rightarrow> Inl e
                              | Inr p0 \<Rightarrow>
                                  if nullish p0 then Inr None
                                  else
                                    (case js_prop p0 (lit ''text'') of
                                       Inl e \<Rightarrow> Inl e
                                     | Inr t \<Rightarrow>
                                         (case js_trim_call t of
                                            Inl e \<Rightarrow> Inl e
                                          | Inr r \<Rightarrow> Inr (Some r))))))))"

definition gemini_prompt :: "jsstring \<Rightarrow> jsstring list \<Rightarrow> jsstring" where
  "gemini_prompt q contents =
     lit (''Generate new content to answer the query: '' @ [CHR 0x22])
     @ q
     @ lit ([CHR 0x22] @ '' based on the following information:\<newline>\<newline>'')
     @ js_join (lit ''\<newline>\<newline>'') contents"

definition gemini_body :: "jsstring \<Rightarrow> jsstring list \<Rightarrow> jsval" where
  "gemini_body q contents =
     JObj [(lit ''contents'',
            JArr [JObj [(lit ''role'', JStr (lit ''user'')),
                        (lit ''parts'',
                         JArr [JObj [(lit ''text'', JStr (gemini_prompt q contents))]])]])]"

definition summarizeWithGemini :: "world \<Rightarrow> jsstring \<Rightarrow> jsstring list \<Rightarrow> state \<Rightarrow> (exn + jsstring) \<times> state" where
  "summarizeWithGemini w q contents s =
     (let s0 = emit (Invoked (SummarizeWithGemini q contents)) s;
          body = gemini_body q contents;
          s1 = emit (AxiosPostGemini body) s0
      in case (case gemini_reply w (trace s1) body of
                 Inl e \<Rightarrow> Inl e
               | Inr d \<Rightarrow> gemini_text d) of
           Inr r \<Rightarrow>
             (let v = (case r of
                         Some t \<Rightarrow> if t \<noteq> [] then t else lit ''Error generating summary.''
                       | None \<Rightarrow> lit ''Error generating summary.'')
              in (Inr v, emit (Returned (SummarizeWithGemini q contents) v) s1))
         | Inl e \<Rightarrow>
             (Inr (lit ''Error generating summary.''),
              emit (Returned (SummarizeWithGemini q contents) (lit ''Error generating summary.''))
                (emit (Console (GeminiError e)) s1)))"

section \<open>The orchestrator\<close>

text \<open>
  The method call \<open>v.toUpperCase()\<close>: only a string has the method; on anything else
  \<open>toUpperCase\<close> is not a function.
\<close>

fun js_toUpperCase_call :: "world \<Rightarrow> jsval \<Rightarrow> exn + jsstring" where
  "js_toUpperCase_call w (JStr s) = Inr (upper_case w s)"
| "js_toUpperCase_call w v = Inl TypeError"

text \<open>
  The \<open>for\<close> loop of \<open>main\<close> over the remaining results, with the array \<open>contents\<close> so
  far. \<open>Inr None\<close> is the \<open>return\<close> of the last branch, which leaves \<open>main\<close>;
  \<open>Inr (Some contents)\<close> is the loop running to its end; \<open>Inl e\<close> is an error thrown
  by an awaited call. The line printed first interpolates the link, which the search
  backend delivers as a string: its conversion to a string is taken as given here.
\<close>

fun fetch_loop :: "config \<Rightarrow> world \<Rightarrow> locator list \<Rightarrow> jsstring list \<Rightarrow> state \<Rightarrow> (exn + jsstring list option) \<times> state" where
  "fetch_loop cfg w [] contents s = (Inr (Some contents), s)"
| "fetch_loop cfg w (result # rest) contents s =
     (let s1 = emit (Console (FetchingFrom (link result))) s in
      if fetchLibrary cfg = lit ''puppeteer'' then
        (case fetchPageContentWithPuppeteer w (link result) s1 of
           (Inl e, s2) \<Rightarrow> (Inl e, s2)
         | (Inr content, s2) \<Rightarrow> fetch_loop cfg w rest (contents @ [content]) s2)
      else if fetchLibrary cfg = lit ''cheerio'' then
        (case fetchPageContentWithCheerio w (link result) s1 of
           (Inl e, s2) \<Rightarrow> (Inl e, s2)
         | (Inr content, s2) \<Rightarrow> fetch_loop cfg w rest (contents @ [content]) s2)
      else (Inr None, emit (Console InvalidFetchLibrary) s1))"

definition main :: "config \<Rightarrow> world \<Rightarrow> state \<Rightarrow> (exn + unit) \<times> state" where
  "main cfg w s0 =
     (let s1 = emit (Console (Searching (query cfg))) s0 in
      case googleSearch cfg w (query cfg) s1 of
        (Inl e, s2) \<Rightarrow> (Inl e, s2)
      | (Inr searchResults, s2) \<Rightarrow>
          if length searchResults = 0 then (Inr (), emit (Console NoResultsFound) s2)
          else
            (let s3 = emit (Console (FetchingTop (numResults cfg))) s2 in
             case fetch_loop cfg w searchResults [] s3 of
               (Inl e, s4) \<Rightarrow> (Inl e, s4)
             | (Inr None, s4) \<Rightarrow> (Inr (), s4)
             | (Inr (Some contents), s4) \<Rightarrow>
                 (case js_toUpperCase_call w (model cfg) of
                    Inl e \<Rightarrow> (Inl e, s4)
                  | Inr upper \<Rightarrow>
                      (let s5 = emit (Console (GeneratingSummary upper)) s4;
                           instructions = query cfg @ lit ('' -- if there is nothing useful to say, simply say '' @ [CHR 0x22] @ ''No results.'' @ [CHR 0x22])
                       in case (if model cfg = JStr (lit ''gemini'')
                                then summarizeWithGemini w (query cfg) contents s5
                                else summarizeWithOpenAI w (query cfg) contents s5) of
                            (Inl e, s6) \<Rightarrow> (Inl e, s6)
                          | (Inr summary, s6) \<Rightarrow>
                              (Inr (), emit (Console (Summary summary)) s6)))))"

section \<open>Notions used to state the properties\<close>

text \<open>Projections of a run: the stage calls, what they returned, the bodies posted.\<close>

fun invocations :: "event list \<Rightarrow> invocation list" where
  "invocations [] = []"
| "invocations (Invoked i # es) = i # invocations es"
| "invocations (e # es) = invocations es"

fun returns :: "event list \<Rightarrow> (invocation \<times> jsstring) list" where
  "returns [] = []"
| "returns (Returned i v # es) = (i, v) # returns es"
| "returns (e # es) = returns es"

fun posted :: "event list \<Rightarrow> jsval list" where
  "posted [] = []"
| "posted (AxiosPostOpenAI b # es) = b # posted es"
| "posted (AxiosPostGemini b # es) = b # posted es"
| "posted (e # es) = posted es"



text \<open>
  A page is fetched successfully: the world answers every call of the strategy, made
  from state \<open>s\<close>, without an error, and the paragraphs of the page are \<open>ps\<close>.
  \<open>puppeteer_extracts\<close> leaves the answer to \<open>browser.close()\<close> open.
\<close>

definition cheerio_succeeds :: "world \<Rightarrow> jsval \<Rightarrow> state \<Rightarrow> jsstring list \<Rightarrow> bool" where
  "cheerio_succeeds w url s ps \<longleftrightarrow>
     page_reply w (trace s @ [Invoked (FetchPageContentWithCheerio url), AxiosGetPage url]) url = Inr ps"

definition puppeteer_extracts :: "world \<Rightarrow> jsval \<Rightarrow> state \<Rightarrow> jsstring list \<Rightarrow> bool" where
  "puppeteer_extracts w url s ps \<longleftrightarrow>
     (let b = launched s;
          h1 = trace s @ [Invoked (FetchPageContentWithPuppeteer url), PuppeteerLaunch];
          h2 = h1 @ [BrowserNewPage b];
          h3 = h2 @ [PageGoto b url];
          h4 = h3 @ [PageEvaluate b]
      in launch_reply w h1 = None \<and> newPage_reply w h2 b = None \<and> goto_reply w h3 b url = None
         \<and> evaluate_reply w h4 b = Inr ps)"

definition puppeteer_succeeds :: "world \<Rightarrow> jsval \<Rightarrow> state \<Rightarrow> jsstring list \<Rightarrow> bool" where
  "puppeteer_succeeds w url s ps \<longleftrightarrow>
     puppeteer_extracts w url s ps
     \<and> close_reply w (trace s @ [Invoked (FetchPageContentWithPuppeteer url), PuppeteerLaunch,
                          BrowserNewPage (launched s), PageGoto (launched s) url,
                          PageEvaluate (launched s),
                          Console (GotContent (length (js_join (lit '' '') ps))),
                          BrowserClose (launched s)]) (launched s) = None"


text \<open>What the world answers to the one request of each synthesis provider.\<close>

definition openai_answer :: "world \<Rightarrow> jsstring \<Rightarrow> jsstring list \<Rightarrow> state \<Rightarrow> exn + jsval" where
  "openai_answer w q contents s =
     openai_reply w (trace s @ [Invoked (SummarizeWithOpenAI q contents),
                                AxiosPostOpenAI (openai_body q contents)])
       (openai_body q contents)"

definition gemini_answer :: "world \<Rightarrow> jsstring \<Rightarrow> jsstring list \<Rightarrow> state \<Rightarrow> exn + jsval" where
  "gemini_answer w q contents s =
     gemini_reply w (trace s @ [Invoked (SummarizeWithGemini q contents),
                                AxiosPostGemini (gemini_body q contents)])
       (gemini_body q contents)"

text \<open>
  A response body with a field missing on the way to the answer text: the field is
  absent or \<open>null\<close>, or cannot be read at all because what should hold it is missing;
  the last field, the text itself, is missing or is not a string. An empty response
  (the empty string, \<open>null\<close>, an empty object) misses the first field.
\<close>

definition missing :: "exn + jsval \<Rightarrow> bool" where
  "missing r = (case r of Inl e \<Rightarrow> True | Inr v \<Rightarrow> nullish v)"

definition not_a_string :: "exn + jsval \<Rightarrow> bool" where
  "not_a_string r = (case r of Inr (JStr t) \<Rightarrow> False | _ \<Rightarrow> True)"

definition field_of :: "exn + jsval \<Rightarrow> jsval" where
  "field_of r = (case r of Inl e \<Rightarrow> JUndefined | Inr v \<Rightarrow> v)"

text \<open>The locator of an item: its \<open>title\<close> and \<open>link\<close>, \<open>undefined\<close> where it has none.\<close>

definition locator_of :: "jsval \<Rightarrow> locator" where
  "locator_of item = \<lparr>title = field_of (js_prop item (lit ''title'')),
                      link = field_of (js_prop item (lit ''link''))\<rparr>"

definition openai_malformed :: "jsval \<Rightarrow> bool" where
  "openai_malformed d \<longleftrightarrow>
     (let choices = js_prop d (lit ''choices'');
          c0 = js_first (field_of choices);
          m = js_prop (field_of c0) (lit ''message'');
          c = js_prop (field_of m) (lit ''content'')
      in missing choices \<or> missing c0 \<or> missing m \<or> not_a_string c)"

definition gemini_malformed :: "jsval \<Rightarrow> bool" where
  "gemini_malformed d \<longleftrightarrow>
     (let candidates = js_prop d (lit ''candidates'');
          c0 = js_first (field_of candidates);
          c = js_prop (field_of c0) (lit ''content'');
          parts = js_prop (field_of c) (lit ''parts'');
          p0 = js_first (field_of parts);
          t = js_prop (field_of p0) (lit ''text'')
      in missing candidates \<or> missing c0 \<or> missing c \<or> missing parts \<or> missing p0
         \<or> not_a_string t)"

text \<open>
  \<open>occurs p s\<close>: the text \<open>p\<close> occurs in \<open>s\<close> (\<open>starts p s\<close>: at its beginning).
  \<open>strings_of v\<close>: every string of a JSON value, property names included.
\<close>

fun starts :: "'a list \<Rightarrow> 'a list \<Rightarrow> bool" where
  "starts [] s = True"
| "starts (p # ps) [] = False"
| "starts (p # ps) (x # xs) = (p = x \<and> starts ps xs)"

fun occurs :: "'a list \<Rightarrow> 'a list \<Rightarrow> bool" where
  "occurs p [] = (p = [])"
| "occurs p (x # xs) = (starts p (x # xs) \<or> occurs p xs)"

fun strings_of :: "jsval \<Rightarrow> jsstring list" where
  "strings_of (JStr s) = [s]"
| "strings_of (JArr xs) = concat (map strings_of xs)"
| "strings_of (JObj kvs) = concat (map (\<lambda>kv. fst kv # strings_of (snd kv)) kvs)"
| "strings_of v = []"

subsection \<open>Example runs\<close>

definition fresh :: state where
  "fresh = \<lparr>trace = [], live = [], launched = 0\<rparr>"

text \<open>
  A world where no call fails and every page and every response is empty. Its case
  mapping is the one of the letters \<open>a\<close> to \<open>z\<close>, which is \<open>toUpperCase\<close> on the ASCII
  strings of these examples.
\<close>

definition ascii_upper :: "16 word \<Rightarrow> 16 word" where
  "ascii_upper c = (if 0x61 \<le> c \<and> c \<le> 0x7A then c - 0x20 else c)"

definition calm :: world where
  "calm = \<lparr>search_reply = (\<lambda>tr q. Inr (JObj [])),
            page_reply = (\<lambda>tr url. Inr []),
            launch_reply = (\<lambda>tr. None),
            newPage_reply = (\<lambda>tr b. None),
            goto_reply = (\<lambda>tr b url. None),
            evaluate_reply = (\<lambda>tr b. Inr []),
            close_reply = (\<lambda>tr b. None),
            openai_reply = (\<lambda>tr body. Inr (JObj [])),
            gemini_reply = (\<lambda>tr body. Inr (JObj [])),
            upper_case = map ascii_upper\<rparr>"

text \<open>Pages whose only paragraph is 5000 spaces, or 5000 letters \<open>a\<close>.\<close>

definition spaces_world :: world where
  "spaces_world = calm\<lparr>page_reply := \<lambda>tr url. Inr [replicate 5000 0x20],
                         evaluate_reply := \<lambda>tr b. Inr [replicate 5000 0x20]\<rparr>"

definition letters_world :: world where
  "letters_world = calm\<lparr>page_reply := \<lambda>tr url. Inr [replicate 5000 0x61],
                          evaluate_reply := \<lambda>tr b. Inr [replicate 5000 0x61]\<rparr>"

text \<open>Every \<open>browser.close()\<close> rejects.\<close>

definition close_fails_world :: world where
  "close_fails_world = calm\<lparr>close_reply := \<lambda>tr b. Some (Thrown (lit ''Target closed'') JUndefined)\<rparr>"

text \<open>The search answers one item that has a title and no link; two complete items; an error.\<close>

definition linkless_world :: world where
  "linkless_world =
     calm\<lparr>search_reply := \<lambda>tr q. Inr (JObj [(lit ''items'', JArr [JObj [(lit ''title'', JStr (lit ''T''))]])])\<rparr>"

definition two_items_world :: world where
  "two_items_world =
     calm\<lparr>search_reply := \<lambda>tr q.
            Inr (JObj [(lit ''items'',
                        JArr [JObj [(lit ''title'', JStr (lit ''A'')), (lit ''link'', JStr (lit ''a''))],
                              JObj [(lit ''title'', JStr (lit ''B'')), (lit ''link'', JStr (lit ''b''))]])])\<rparr>"

definition search_fails_world :: world where
  "search_fails_world = calm\<lparr>search_reply := \<lambda>tr q. Inl (Thrown (lit ''Network Error'') JUndefined)\<rparr>"


text \<open>The query \<open>x\<close> under the default configuration.\<close>

definition cfg_x :: config where
  "cfg_x = \<lparr>fetchLibrary = lit ''cheerio'', numResults = 5, model = JStr (lit ''openai''), query = lit ''x''\<rparr>"

text \<open>
  The synthesis backends answer a well-formed response whose text is the empty string;
  a response whose list of choices is empty, or whose first candidate has no content.
\<close>

definition empty_answer_world :: world where
  "empty_answer_world =
     calm\<lparr>openai_reply := \<lambda>tr body.
            Inr (JObj [(lit ''choices'',
                        JArr [JObj [(lit ''message'',
                                     JObj [(lit ''role'', JStr (lit ''assistant'')),
                                           (lit ''content'', JStr [])])]])]),
          gemini_reply := \<lambda>tr body.
            Inr (JObj [(lit ''candidates'',
                        JArr [JObj [(lit ''content'',
                                     JObj [(lit ''parts'', JArr [JObj [(lit ''text'', JStr [])]])])]])])\<rparr>"

definition no_choices_world :: world where
  "no_choices_world =
     calm\<lparr>openai_reply := \<lambda>tr body. Inr (JObj [(lit ''choices'', JArr [])]),
          gemini_reply := \<lambda>tr body. Inr (JObj [(lit ''candidates'', JArr [JObj []])])\<rparr>"




section \<open>Strings\<close>

lemma unat_of_char: "unat (of_char x :: 16 word) = of_char x"
proof -
  have "(of_char x :: 16 word) = of_nat (of_char x)" by (simp only: of_nat_of_char)
  then have "unat (of_char x :: 16 word) = (of_char x :: nat) mod 2 ^ 16"
    by (simp only: unat_of_nat) simp
  moreover have "(of_char x :: nat) < 2 ^ 16"
  proof -
    have "(of_char x :: nat) < 256" by (rule nat_of_char_less_256)
    also have "(256::nat) < 2 ^ 16" by simp
    finally show ?thesis .
  qed
  ultimately show ?thesis by simp
qed

lemma lit_eq_iff [simp]: "lit a = lit b \<longleftrightarrow> a = b"
proof -
  have inj: "inj (of_char :: char \<Rightarrow> 16 word)"
  proof (rule injI)
    fix x y :: char assume h: "(of_char x :: 16 word) = of_char y"
    then have "unat (of_char x :: 16 word) = unat (of_char y :: 16 word)" by simp
    then have "(of_char x :: nat) = of_char y" by (simp only: unat_of_char)
    then show "x = y" by simp
  qed
  show ?thesis by (simp add: lit_def inj_map_eq_map[OF inj])
qed

lemma length_lit [simp]: "length (lit s) = length s" by (simp add: lit_def)
lemma lit_Nil_iff [simp]: "lit s = [] \<longleftrightarrow> s = []" by (simp add: lit_def)

lemma length_js_trim_le: "length (js_trim s) \<le> length s"
proof -
  have "length (js_trim s) \<le> length (rev (dropWhile is_ws s))"
    unfolding js_trim_def length_rev
    using length_dropWhile_le [of is_ws "rev (dropWhile is_ws s)"] by simp
  also have "\<dots> \<le> length s" by (simp add: length_dropWhile_le)
  finally show ?thesis .
qed

lemma js_slice_from_0: "0 \<le> n \<Longrightarrow> js_slice 0 n xs = take (nat n) xs"
  by (simp add: js_slice_def Let_def min_def)

lemma excerpt_bounds:
  assumes "v = (if 100 < length (js_trim c) then js_slice 0 2000 c else lit ''No meaningful content found.'')"
  shows "v \<noteq> [] \<and> length v \<le> 2000"
proof (cases "100 < length (js_trim c)")
  case True
  then have "100 < length c" using length_js_trim_le [of c] by linarith
  with True assms show ?thesis by (auto simp: js_slice_from_0)
next
  case False
  with assms show ?thesis by simp
qed

lemma js_trim_spaces: "js_trim (replicate n 0x20) = []"
  by (simp add: js_trim_def is_ws_def)

lemma js_trim_letters: "js_trim (replicate n 0x61) = replicate n 0x61"
  by (simp add: js_trim_def is_ws_def)

lemma inj_of_char_16: "inj (of_char :: char \<Rightarrow> 16 word)"
proof (rule injI)
  fix x y :: char assume h: "(of_char x :: 16 word) = of_char y"
  then have "unat (of_char x :: 16 word) = unat (of_char y :: 16 word)" by simp
  then have "(of_char x :: nat) = of_char y" by (simp only: unat_of_char)
  then show "x = y" by simp
qed

lemma starts_map: "inj f \<Longrightarrow> starts (map f p) (map f s) = starts p s"
  by (induction p s rule: starts.induct) (auto dest: injD)

lemma occurs_map: "inj f \<Longrightarrow> occurs (map f p) (map f s) = occurs p s"
proof (induction s)
  case Nil
  then show ?case by simp
next
  case (Cons x xs)
  from starts_map [OF Cons.prems, of p "x # xs"] Cons show ?case by simp
qed

lemma starts_self_append: "starts p (p @ b)"
  by (induction p) simp_all

lemma occurs_self_append: "occurs p (p @ b)"
proof (cases "p @ b")
  case Nil
  then show ?thesis by simp
next
  case (Cons x xs)
  have "starts p (p @ b)" by (rule starts_self_append)
  with Cons show ?thesis by simp
qed

lemma occurs_append: "occurs p (a @ p @ b)"
  by (induction a) (simp_all add: occurs_self_append)

lemma occurs_lit: "occurs (lit p) (lit s) = occurs p s"
  unfolding lit_def by (rule occurs_map [OF inj_of_char_16])

lemma lit_append: "lit a @ lit b = lit (a @ b)" by (simp add: lit_def)

lemma lit_append2: "lit a @ lit b @ r = lit (a @ b) @ r" by (simp add: lit_def)

section \<open>Properties of the fetch strategies\<close>

lemma puppeteer_shape:
  assumes "fetchPageContentWithPuppeteer w url s = (r, s')"
      and "launch_reply w (trace s @ [Invoked (FetchPageContentWithPuppeteer url), PuppeteerLaunch]) = None"
  shows "\<exists>mid. trace s' = trace s @ Invoked (FetchPageContentWithPuppeteer url) # PuppeteerLaunch # mid
            @ BrowserClose (launched s)
            # (case r of Inr v \<Rightarrow> [Returned (FetchPageContentWithPuppeteer url) v] | Inl e \<Rightarrow> [])
         \<and> BrowserClose (launched s) \<notin> set mid"
    and "\<And>v. r = Inr v \<Longrightarrow> live s' = live s"
    and "\<And>e. r = Inl e \<Longrightarrow> close_reply w (trace s') (launched s) = Some e"
  using assms
  by (auto simp: fetchPageContentWithPuppeteer_def puppeteer_try_def emit_def Let_def
           split: option.splits sum.splits prod.splits)

lemma cheerio_result:
  "fetchPageContentWithCheerio w url s =
     (case page_reply w (trace s @ [Invoked (FetchPageContentWithCheerio url), AxiosGetPage url]) url of
        Inl e \<Rightarrow>
          (Inr (lit ''Error fetching content.''),
           s\<lparr>trace := trace s @ [Invoked (FetchPageContentWithCheerio url), AxiosGetPage url,
                                  Console (FailedToFetch url e),
                                  Returned (FetchPageContentWithCheerio url) (lit ''Error fetching content.'')]\<rparr>)
      | Inr ps \<Rightarrow>
          (let c = js_join (lit '' '') ps;
               v = (if 100 < length (js_trim c) then js_slice 0 2000 c
                    else lit ''No meaningful content found.'')
           in (Inr v,
               s\<lparr>trace := trace s @ [Invoked (FetchPageContentWithCheerio url), AxiosGetPage url,
                                      Console (GotContent (length c)),
                                      Returned (FetchPageContentWithCheerio url) v]\<rparr>)))"
  by (simp add: fetchPageContentWithCheerio_def cheerio_try_def emit_def Let_def
           split: sum.splits)

lemma puppeteer_value:
  assumes "fetchPageContentWithPuppeteer w url s = (Inr v, s')"
  shows "v = lit ''Error fetching content.''
       \<or> (\<exists>ps. puppeteer_extracts w url s ps
              \<and> v = (if 100 < length (js_trim (js_join (lit '' '') ps))
                     then js_slice 0 2000 (js_join (lit '' '') ps)
                     else lit ''No meaningful content found.''))"
  using assms
  by (auto simp: fetchPageContentWithPuppeteer_def puppeteer_try_def puppeteer_extracts_def
                 emit_def Let_def
           split: option.splits sum.splits prod.splits if_splits)

lemma puppeteer_error:
  assumes "fetchPageContentWithPuppeteer w url s = (Inl e, s')"
  shows "close_reply w (trace s') (launched s) = Some e \<and> last (trace s') = BrowserClose (launched s)"
  using assms
  by (auto simp: fetchPageContentWithPuppeteer_def puppeteer_try_def emit_def Let_def
           split: option.splits sum.splits prod.splits if_splits)

lemma puppeteer_success:
  assumes "puppeteer_succeeds w url s ps"
  shows "fst (fetchPageContentWithPuppeteer w url s)
         = Inr (if 100 < length (js_trim (js_join (lit '' '') ps))
                then js_slice 0 2000 (js_join (lit '' '') ps)
                else lit ''No meaningful content found.'')"
  using assms
  by (simp add: fetchPageContentWithPuppeteer_def puppeteer_try_def puppeteer_succeeds_def
                puppeteer_extracts_def emit_def Let_def)

text \<open>
  Claim C8. Whenever \<open>puppeteer.launch()\<close> succeeded, \<open>fetchPageContentWithPuppeteer\<close>
  calls \<open>browser.close()\<close> on that browser as its last action, after every page
  operation, whatever happened in between (extraction, too little content, a thrown
  error). When the function returns, the close succeeded and the browser is no longer
  open; the function throws only when \<open>browser.close()\<close> itself rejects.
\<close>

theorem puppeteer_closes_browser:
  assumes "launch_reply w (trace s @ [Invoked (FetchPageContentWithPuppeteer url), PuppeteerLaunch]) = None"
      and "fetchPageContentWithPuppeteer w url s = (r, s')"
  shows "(\<exists>mid. trace s' = trace s @ Invoked (FetchPageContentWithPuppeteer url) # PuppeteerLaunch # mid
            @ BrowserClose (launched s)
            # (case r of Inr v \<Rightarrow> [Returned (FetchPageContentWithPuppeteer url) v] | Inl e \<Rightarrow> [])
          \<and> BrowserClose (launched s) \<notin> set mid)
       \<and> (\<forall>v. r = Inr v \<longrightarrow> live s' = live s)
       \<and> (\<forall>e. r = Inl e \<longrightarrow> close_reply w (trace s') (launched s) = Some e)"
  using puppeteer_shape [OF assms(2) assms(1)] by blast

theorem puppeteer_closes_browser_witness:
  "launch_reply (calm\<lparr>goto_reply := \<lambda>tr b url. Some (Thrown (lit ''Navigation timeout'') JUndefined)\<rparr>)
     (trace fresh @ [Invoked (FetchPageContentWithPuppeteer (JStr (lit ''u''))), PuppeteerLaunch]) = None
   \<and> fetchPageContentWithPuppeteer
       (calm\<lparr>goto_reply := \<lambda>tr b url. Some (Thrown (lit ''Navigation timeout'') JUndefined)\<rparr>)
       (JStr (lit ''u'')) fresh
     = (Inr (lit ''Error fetching content.''),
        \<lparr>trace = [Invoked (FetchPageContentWithPuppeteer (JStr (lit ''u''))), PuppeteerLaunch,
                  BrowserNewPage 0, PageGoto 0 (JStr (lit ''u'')),
                  Console (FailedToFetch (JStr (lit ''u'')) (Thrown (lit ''Navigation timeout'') JUndefined)),
                  BrowserClose 0,
                  Returned (FetchPageContentWithPuppeteer (JStr (lit ''u''))) (lit ''Error fetching content.'')],
         live = [], launched = 1\<rparr>)
   \<and> live \<lparr>trace = [Invoked (FetchPageContentWithPuppeteer (JStr (lit ''u''))), PuppeteerLaunch,
                  BrowserNewPage 0, PageGoto 0 (JStr (lit ''u'')),
                  Console (FailedToFetch (JStr (lit ''u'')) (Thrown (lit ''Navigation timeout'') JUndefined)),
                  BrowserClose 0,
                  Returned (FetchPageContentWithPuppeteer (JStr (lit ''u''))) (lit ''Error fetching content.'')],
         live = [], launched = 1\<rparr> = live fresh"
proof -
  let ?w = "calm\<lparr>goto_reply := \<lambda>tr b url. Some (Thrown (lit ''Navigation timeout'') JUndefined)\<rparr>"
  let ?u = "JStr (lit ''u'')"
  have h1: "launch_reply ?w (trace fresh @ [Invoked (FetchPageContentWithPuppeteer ?u), PuppeteerLaunch]) = None"
    by (simp add: calm_def)
  have h2: "fetchPageContentWithPuppeteer ?w ?u fresh
     = (Inr (lit ''Error fetching content.''),
        \<lparr>trace = [Invoked (FetchPageContentWithPuppeteer ?u), PuppeteerLaunch,
                  BrowserNewPage 0, PageGoto 0 ?u,
                  Console (FailedToFetch ?u (Thrown (lit ''Navigation timeout'') JUndefined)),
                  BrowserClose 0,
                  Returned (FetchPageContentWithPuppeteer ?u) (lit ''Error fetching content.'')],
         live = [], launched = 1\<rparr>)"
    by (simp add: fetchPageContentWithPuppeteer_def puppeteer_try_def emit_def calm_def fresh_def Let_def)
  from puppeteer_closes_browser [OF h1 h2] h1 h2 show ?thesis by simp
qed

text \<open>
  What the two strategies give back. \<open>fetchPageContentWithCheerio\<close> always returns a
  string: the first 2000 code units of the extracted text or one of the two sentinels,
  never empty and never longer than 2000. \<open>fetchPageContentWithPuppeteer\<close> returns such
  a string on every outcome but one: when \<open>browser.close()\<close> rejects, it throws that
  error.
\<close>

theorem fetch_returns_excerpt_or_close_error:
  "(\<exists>v s'. fetchPageContentWithCheerio w url s = (Inr v, s')
        \<and> v \<noteq> [] \<and> length v \<le> 2000
        \<and> (v = lit ''No meaningful content found.'' \<or> v = lit ''Error fetching content.''
           \<or> (\<exists>ps. cheerio_succeeds w url s ps \<and> v = take 2000 (js_join (lit '' '') ps))))
   \<and> (\<exists>r s'. fetchPageContentWithPuppeteer w url s = (r, s')
        \<and> (case r of
             Inl e \<Rightarrow> close_reply w (trace s') (launched s) = Some e
           | Inr v \<Rightarrow>
               v \<noteq> [] \<and> length v \<le> 2000
               \<and> (v = lit ''No meaningful content found.'' \<or> v = lit ''Error fetching content.''
                  \<or> (\<exists>ps. puppeteer_extracts w url s ps \<and> v = take 2000 (js_join (lit '' '') ps)))))"
proof (rule conjI)
  show "\<exists>v s'. fetchPageContentWithCheerio w url s = (Inr v, s')
        \<and> v \<noteq> [] \<and> length v \<le> 2000
        \<and> (v = lit ''No meaningful content found.'' \<or> v = lit ''Error fetching content.''
           \<or> (\<exists>ps. cheerio_succeeds w url s ps \<and> v = take 2000 (js_join (lit '' '') ps)))"
  proof (cases "page_reply w (trace s @ [Invoked (FetchPageContentWithCheerio url), AxiosGetPage url]) url")
    case (Inl e)
    then show ?thesis by (simp add: cheerio_result)
  next
    case (Inr ps)
    let ?c = "js_join (lit '' '') ps"
    let ?v = "if 100 < length (js_trim ?c) then js_slice 0 2000 ?c else lit ''No meaningful content found.''"
    have b: "?v \<noteq> [] \<and> length ?v \<le> 2000" by (rule excerpt_bounds) simp
    have k: "?v = lit ''No meaningful content found.'' \<or> ?v = take 2000 ?c"
      by (simp add: js_slice_from_0)
    have ok: "cheerio_succeeds w url s ps" using Inr by (simp add: cheerio_succeeds_def)
    from Inr have "fst (fetchPageContentWithCheerio w url s) = Inr ?v"
      by (simp add: cheerio_result Let_def)
    then obtain s' where "fetchPageContentWithCheerio w url s = (Inr ?v, s')"
      by (cases "fetchPageContentWithCheerio w url s") simp
    with b k ok show ?thesis by blast
  qed
next
  obtain r s' where run: "fetchPageContentWithPuppeteer w url s = (r, s')"
    by (cases "fetchPageContentWithPuppeteer w url s") blast
  have "case r of
          Inl e \<Rightarrow> close_reply w (trace s') (launched s) = Some e
        | Inr v \<Rightarrow>
            v \<noteq> [] \<and> length v \<le> 2000
            \<and> (v = lit ''No meaningful content found.'' \<or> v = lit ''Error fetching content.''
               \<or> (\<exists>ps. puppeteer_extracts w url s ps \<and> v = take 2000 (js_join (lit '' '') ps)))"
  proof (cases r)
    case (Inl e)
    with run show ?thesis using puppeteer_error [of w url s e s'] by simp
  next
    case (Inr v)
    with run have "fetchPageContentWithPuppeteer w url s = (Inr v, s')" by simp
    from puppeteer_value [OF this] show ?thesis
    proof
      assume "v = lit ''Error fetching content.''"
      with Inr show ?thesis by simp
    next
      assume "\<exists>ps. puppeteer_extracts w url s ps
              \<and> v = (if 100 < length (js_trim (js_join (lit '' '') ps))
                     then js_slice 0 2000 (js_join (lit '' '') ps)
                     else lit ''No meaningful content found.'')"
      then obtain ps where ex: "puppeteer_extracts w url s ps"
        and v: "v = (if 100 < length (js_trim (js_join (lit '' '') ps))
                     then js_slice 0 2000 (js_join (lit '' '') ps)
                     else lit ''No meaningful content found.'')" by blast
      from excerpt_bounds [OF v] have b: "v \<noteq> [] \<and> length v \<le> 2000" .
      from v have "v = lit ''No meaningful content found.'' \<or> v = take 2000 (js_join (lit '' '') ps)"
        by (simp add: js_slice_from_0 split: if_splits)
      with ex b Inr show ?thesis by auto
    qed
  qed
  with run show "\<exists>r s'. fetchPageContentWithPuppeteer w url s = (r, s')
        \<and> (case r of
             Inl e \<Rightarrow> close_reply w (trace s') (launched s) = Some e
           | Inr v \<Rightarrow>
               v \<noteq> [] \<and> length v \<le> 2000
               \<and> (v = lit ''No meaningful content found.'' \<or> v = lit ''Error fetching content.''
                  \<or> (\<exists>ps. puppeteer_extracts w url s ps \<and> v = take 2000 (js_join (lit '' '') ps))))"
    by blast
qed

text \<open>
  Claim C2 says that each strategy returns, for every URL and every outcome, the
  extracted text cut to 2000 characters or one of the two sentinels, never an empty and
  never a longer string. The \<open>try\<close> and \<open>catch\<close> of \<open>fetchPageContentWithPuppeteer\<close>
  return such a string on every path, as \<open>fetchPageContentWithCheerio\<close> does, but the
  \<open>finally\<close> block awaits \<open>browser.close()\<close> unguarded: when the browser was launched
  and its close rejects, the function throws and returns no string.
\<close>

theorem puppeteer_close_error_escapes:
  "fst (fetchPageContentWithPuppeteer close_fails_world (JStr (lit ''u'')) fresh)
     = Inl (Thrown (lit ''Target closed'') JUndefined)"
  by (simp add: fetchPageContentWithPuppeteer_def puppeteer_try_def emit_def calm_def fresh_def
                close_fails_world_def Let_def)

text \<open>
  Claim C3 fails on the code as stated: the test is on the length of the trimmed text.
  A page whose extracted text is 5000 spaces, fetched successfully by either strategy,
  gives the sentinel and not its first 2000 characters.
\<close>

theorem whitespace_text_becomes_sentinel:
  "cheerio_succeeds spaces_world (JStr (lit ''u'')) fresh [replicate 5000 0x20]
   \<and> length (js_join (lit '' '') [replicate 5000 0x20]) = 5000
   \<and> fst (fetchPageContentWithCheerio spaces_world (JStr (lit ''u'')) fresh)
       = Inr (lit ''No meaningful content found.'')
   \<and> puppeteer_succeeds spaces_world (JStr (lit ''u'')) fresh [replicate 5000 0x20]
   \<and> fst (fetchPageContentWithPuppeteer spaces_world (JStr (lit ''u'')) fresh)
       = Inr (lit ''No meaningful content found.'')
   \<and> lit ''No meaningful content found.'' \<noteq> take 2000 (js_join (lit '' '') [replicate 5000 0x20])"
proof -
  have c: "cheerio_succeeds spaces_world (JStr (lit ''u'')) fresh [replicate 5000 0x20]"
    by (simp add: cheerio_succeeds_def spaces_world_def calm_def)
  have p: "puppeteer_succeeds spaces_world (JStr (lit ''u'')) fresh [replicate 5000 0x20]"
    by (simp add: puppeteer_succeeds_def puppeteer_extracts_def spaces_world_def calm_def Let_def)
  have r1: "fst (fetchPageContentWithCheerio spaces_world (JStr (lit ''u'')) fresh)
       = Inr (lit ''No meaningful content found.'')"
    using c by (simp add: cheerio_result cheerio_succeeds_def js_trim_spaces Let_def)
  have r2: "fst (fetchPageContentWithPuppeteer spaces_world (JStr (lit ''u'')) fresh)
       = Inr (lit ''No meaningful content found.'')"
    using puppeteer_success [OF p] by (simp add: js_trim_spaces)
  have "length (lit ''No meaningful content found.'') \<noteq> length (take 2000 (js_join (lit '' '') [replicate 5000 (0x20 :: 16 word)]))"
    by simp
  then have ne: "lit ''No meaningful content found.'' \<noteq> take 2000 (js_join (lit '' '') [replicate 5000 0x20])"
    by metis
  from c p r1 r2 ne show ?thesis by simp
qed

text \<open>
  Claim C3, amended. For every successfully fetched page (for the puppeteer strategy,
  with a successful \<open>browser.close()\<close>), both strategies return the first 2000
  characters of the concatenated paragraph text if the length of that text, trimmed of
  white space at both ends, is greater than 100, and the sentinel \<open>No meaningful content
  found.\<close> otherwise. In particular 5000 characters whose trimmed length exceeds 100 are
  cut to exactly the first 2000, and 50 characters become the sentinel.
\<close>

theorem excerpt_by_trimmed_length:
  "(cheerio_succeeds w url s ps \<longrightarrow>
      fst (fetchPageContentWithCheerio w url s)
        = Inr (if 100 < length (js_trim (js_join (lit '' '') ps))
               then take 2000 (js_join (lit '' '') ps)
               else lit ''No meaningful content found.''))
   \<and> (puppeteer_succeeds w url s ps \<longrightarrow>
      fst (fetchPageContentWithPuppeteer w url s)
        = Inr (if 100 < length (js_trim (js_join (lit '' '') ps))
               then take 2000 (js_join (lit '' '') ps)
               else lit ''No meaningful content found.''))
   \<and> (length (js_join (lit '' '') ps) = 5000 \<and> 100 < length (js_trim (js_join (lit '' '') ps)) \<longrightarrow>
        (cheerio_succeeds w url s ps \<longrightarrow>
           fst (fetchPageContentWithCheerio w url s) = Inr (take 2000 (js_join (lit '' '') ps)))
        \<and> (puppeteer_succeeds w url s ps \<longrightarrow>
           fst (fetchPageContentWithPuppeteer w url s) = Inr (take 2000 (js_join (lit '' '') ps)))
        \<and> length (take 2000 (js_join (lit '' '') ps)) = 2000)
   \<and> (length (js_join (lit '' '') ps) = 50 \<longrightarrow>
        (cheerio_succeeds w url s ps \<longrightarrow>
           fst (fetchPageContentWithCheerio w url s) = Inr (lit ''No meaningful content found.''))
        \<and> (puppeteer_succeeds w url s ps \<longrightarrow>
           fst (fetchPageContentWithPuppeteer w url s) = Inr (lit ''No meaningful content found.'')))"
proof -
  let ?c = "js_join (lit '' '') ps"
  have a: "cheerio_succeeds w url s ps \<Longrightarrow>
      fst (fetchPageContentWithCheerio w url s)
        = Inr (if 100 < length (js_trim ?c) then take 2000 ?c else lit ''No meaningful content found.'')"
    by (simp add: cheerio_result cheerio_succeeds_def Let_def js_slice_from_0)
  have b: "puppeteer_succeeds w url s ps \<Longrightarrow>
      fst (fetchPageContentWithPuppeteer w url s)
        = Inr (if 100 < length (js_trim ?c) then take 2000 ?c else lit ''No meaningful content found.'')"
    using puppeteer_success [of w url s ps] by (simp add: js_slice_from_0)
  have short: "length ?c = 50 \<Longrightarrow> \<not> 100 < length (js_trim ?c)"
    using length_js_trim_le [of ?c] by linarith
  show ?thesis using a b short by simp
qed

theorem excerpt_by_trimmed_length_witness:
  "cheerio_succeeds letters_world (JStr (lit ''u'')) fresh [replicate 5000 0x61]
   \<and> puppeteer_succeeds letters_world (JStr (lit ''u'')) fresh [replicate 5000 0x61]
   \<and> fst (fetchPageContentWithCheerio letters_world (JStr (lit ''u'')) fresh) = Inr (replicate 2000 0x61)
   \<and> fst (fetchPageContentWithPuppeteer letters_world (JStr (lit ''u'')) fresh) = Inr (replicate 2000 0x61)"
proof -
  have c: "cheerio_succeeds letters_world (JStr (lit ''u'')) fresh [replicate 5000 0x61]"
    by (simp add: cheerio_succeeds_def letters_world_def calm_def)
  have p: "puppeteer_succeeds letters_world (JStr (lit ''u'')) fresh [replicate 5000 0x61]"
    by (simp add: puppeteer_succeeds_def puppeteer_extracts_def letters_world_def calm_def Let_def)
  from excerpt_by_trimmed_length [of letters_world "JStr (lit ''u'')" fresh "[replicate 5000 0x61]"] c p
  show ?thesis by (simp add: js_trim_letters)
qed

section \<open>Properties of the search\<close>

lemma length_js_slice_le: "0 \<le> n \<Longrightarrow> length (js_slice 0 n xs) \<le> nat n"
  by (simp add: js_slice_from_0)

lemma map_items_length: "map_items xs = Inr rs \<Longrightarrow> length rs = length xs"
  by (induction xs arbitrary: rs) (auto split: sum.splits)

lemma map_items_objects:
  "\<forall>i\<in>set xs. \<not> nullish i \<Longrightarrow> map_items xs = Inr (map locator_of xs)"
proof (induction xs)
  case Nil
  then show ?case by simp
next
  case (Cons x xs)
  then have "\<not> nullish x" by simp
  then have "\<exists>t l. js_prop x (lit ''title'') = Inr t \<and> js_prop x (lit ''link'') = Inr l"
    by (cases x) simp_all
  with Cons show ?case by (auto simp: locator_of_def field_of_def)
qed

lemma googleSearch_try_trace:
  "googleSearch_try cfg w q s = (r, s') \<Longrightarrow> s' = emit (AxiosGetSearch q) s"
  by (auto simp: googleSearch_try_def Let_def split: sum.splits jsval.splits if_splits)

lemma googleSearch_total:
  "\<exists>rs errs. googleSearch cfg w q s = (Inr rs, s\<lparr>trace := trace s @ AxiosGetSearch q # errs\<rparr>)
      \<and> (errs = [] \<or> (rs = [] \<and> (\<exists>e. errs = [Console (GoogleSearchError e)])))"
proof -
  obtain r s' where t: "googleSearch_try cfg w q s = (r, s')"
    by (cases "googleSearch_try cfg w q s") blast
  from googleSearch_try_trace [OF t] have s': "s' = emit (AxiosGetSearch q) s" .
  show ?thesis
  proof (cases r)
    case (Inl e)
    with t s' have "googleSearch cfg w q s
        = (Inr [], s\<lparr>trace := trace s @ AxiosGetSearch q # [Console (GoogleSearchError e)]\<rparr>)"
      by (simp add: googleSearch_def emit_def)
    then show ?thesis by blast
  next
    case (Inr rs)
    with t s' have "googleSearch cfg w q s = (Inr rs, s\<lparr>trace := trace s @ AxiosGetSearch q # []\<rparr>)"
      by (simp add: googleSearch_def emit_def)
    then show ?thesis by blast
  qed
qed

lemma googleSearch_nonempty:
  assumes "googleSearch cfg w q s = (Inr rs, s2)" and "rs \<noteq> []"
  shows "s2 = s\<lparr>trace := trace s @ [AxiosGetSearch q]\<rparr>"
proof -
  from googleSearch_total [of cfg w q s] obtain rs' errs where
    run: "googleSearch cfg w q s = (Inr rs', s\<lparr>trace := trace s @ AxiosGetSearch q # errs\<rparr>)"
    and errs: "errs = [] \<or> (rs' = [] \<and> (\<exists>e. errs = [Console (GoogleSearchError e)]))"
    by blast
  from run assms(1) have "rs' = rs" and s2: "s2 = s\<lparr>trace := trace s @ AxiosGetSearch q # errs\<rparr>"
    by simp_all
  with errs assms(2) have "errs = []" by blast
  with s2 show ?thesis by simp
qed

lemma googleSearch_no_items:
  assumes "search_reply w (trace s @ [AxiosGetSearch q]) q = Inr d"
      and "js_prop d (lit ''items'') = Inr (JArr [])"
  shows "googleSearch cfg w q s = (Inr [], s\<lparr>trace := trace s @ [AxiosGetSearch q]\<rparr>)"
  using assms
  by (simp add: googleSearch_def googleSearch_try_def emit_def js_slice_def Let_def)

lemma googleSearch_error:
  assumes "search_reply w (trace s @ [AxiosGetSearch q]) q = Inl e"
  shows "googleSearch cfg w q s
         = (Inr [], s\<lparr>trace := trace s @ [AxiosGetSearch q, Console (GoogleSearchError e)]\<rparr>)"
  using assms by (simp add: googleSearch_def googleSearch_try_def emit_def Let_def)

lemma googleSearch_success:
  assumes "search_reply w (trace s @ [AxiosGetSearch q]) q = Inr d"
      and "0 \<le> numResults cfg"
  shows "\<exists>rs s'. googleSearch cfg w q s = (Inr rs, s') \<and> length rs \<le> nat (numResults cfg)
          \<and> (\<forall>its. js_prop d (lit ''items'') = Inr (JArr its)
                 \<and> (\<forall>i\<in>set (take (nat (numResults cfg)) its). \<not> nullish i)
               \<longrightarrow> rs = map locator_of (take (nat (numResults cfg)) its))"
proof -
  obtain r s' where t: "googleSearch_try cfg w q s = (r, s')"
    by (cases "googleSearch_try cfg w q s") blast
  show ?thesis
  proof (cases r)
    case (Inl e)
    have "\<And>its. js_prop d (lit ''items'') = Inr (JArr its) \<Longrightarrow>
           \<forall>i\<in>set (take (nat (numResults cfg)) its). \<not> nullish i \<Longrightarrow> False"
    proof -
      fix its assume i: "js_prop d (lit ''items'') = Inr (JArr its)"
        and n: "\<forall>i\<in>set (take (nat (numResults cfg)) its). \<not> nullish i"
      from map_items_objects [OF n] i assms t Inl show False
        by (simp add: googleSearch_try_def emit_def Let_def js_slice_from_0)
    qed
    with t Inl show ?thesis by (auto simp: googleSearch_def)
  next
    case (Inr rs)
    have len: "length rs \<le> nat (numResults cfg)"
      using t Inr assms map_items_length length_js_slice_le [OF assms(2)]
      by (fastforce simp: googleSearch_try_def emit_def Let_def split: sum.splits jsval.splits if_splits)
    have "\<And>its. js_prop d (lit ''items'') = Inr (JArr its) \<Longrightarrow>
           \<forall>i\<in>set (take (nat (numResults cfg)) its). \<not> nullish i \<Longrightarrow>
           rs = map locator_of (take (nat (numResults cfg)) its)"
    proof -
      fix its assume i: "js_prop d (lit ''items'') = Inr (JArr its)"
        and n: "\<forall>i\<in>set (take (nat (numResults cfg)) its). \<not> nullish i"
      from map_items_objects [OF n] i assms t Inr
      show "rs = map locator_of (take (nat (numResults cfg)) its)"
        by (simp add: googleSearch_try_def emit_def Let_def js_slice_from_0)
    qed
    with t Inr len show ?thesis by (auto simp: googleSearch_def)
  qed
qed

text \<open>
  Claim C4 fails on the code as stated: nothing in \<open>googleSearch\<close> drops an item. An
  item without a link is kept, with \<open>link\<close> undefined.
\<close>

theorem search_keeps_linkless_item:
  "fst (googleSearch cfg_x linkless_world (lit ''x'') fresh)
     = Inr [\<lparr>title = JStr (lit ''T''), link = JUndefined\<rparr>]"
  by (simp add: googleSearch_def googleSearch_try_def emit_def linkless_world_def calm_def
                cfg_x_def fresh_def js_slice_def Let_def)

text \<open>
  Claim C4, amended. For every query and every limit \<open>L \<ge> 1\<close>, on a successful backend
  response \<open>googleSearch\<close> returns at most \<open>L\<close> locators; when the response holds an
  array of items (none of the first \<open>L\<close> being \<open>null\<close>), these are the first \<open>L\<close> items
  in the backend's order, each mapped to its title and link, and an item that lacks a
  link is kept with an undefined link.
\<close>

theorem search_returns_prefix:
  assumes "search_reply w (trace s @ [AxiosGetSearch q]) q = Inr d"
      and "1 \<le> numResults cfg"
  shows "\<exists>rs s'. googleSearch cfg w q s = (Inr rs, s') \<and> length rs \<le> nat (numResults cfg)
          \<and> (\<forall>its. js_prop d (lit ''items'') = Inr (JArr its)
                 \<and> (\<forall>i\<in>set (take (nat (numResults cfg)) its). \<not> nullish i)
               \<longrightarrow> rs = map locator_of (take (nat (numResults cfg)) its))"
proof -
  from assms(2) have "0 \<le> numResults cfg" by simp
  from googleSearch_success [OF assms(1) this] show ?thesis .
qed

theorem search_returns_prefix_witness:
  "search_reply two_items_world (trace fresh @ [AxiosGetSearch (lit ''x'')]) (lit ''x'')
     = Inr (JObj [(lit ''items'',
                   JArr [JObj [(lit ''title'', JStr (lit ''A'')), (lit ''link'', JStr (lit ''a''))],
                         JObj [(lit ''title'', JStr (lit ''B'')), (lit ''link'', JStr (lit ''b''))]])])
   \<and> 1 \<le> numResults (cfg_x\<lparr>numResults := 1\<rparr>)
   \<and> fst (googleSearch (cfg_x\<lparr>numResults := 1\<rparr>) two_items_world (lit ''x'') fresh)
       = Inr [\<lparr>title = JStr (lit ''A''), link = JStr (lit ''a'')\<rparr>]"
proof -
  let ?d = "JObj [(lit ''items'',
                   JArr [JObj [(lit ''title'', JStr (lit ''A'')), (lit ''link'', JStr (lit ''a''))],
                         JObj [(lit ''title'', JStr (lit ''B'')), (lit ''link'', JStr (lit ''b''))]])]"
  have h1: "search_reply two_items_world (trace fresh @ [AxiosGetSearch (lit ''x'')]) (lit ''x'') = Inr ?d"
    by (simp add: two_items_world_def calm_def)
  have h2: "1 \<le> numResults (cfg_x\<lparr>numResults := 1\<rparr>)" by simp
  from search_returns_prefix [OF h1 h2]
  obtain rs s' where run: "googleSearch (cfg_x\<lparr>numResults := 1\<rparr>) two_items_world (lit ''x'') fresh = (Inr rs, s')"
    and all: "\<forall>its. js_prop ?d (lit ''items'') = Inr (JArr its)
                 \<and> (\<forall>i\<in>set (take (nat (numResults (cfg_x\<lparr>numResults := 1\<rparr>))) its). \<not> nullish i)
               \<longrightarrow> rs = map locator_of (take (nat (numResults (cfg_x\<lparr>numResults := 1\<rparr>))) its)"
    by blast
  from all have "rs = [\<lparr>title = JStr (lit ''A''), link = JStr (lit ''a'')\<rparr>]"
    by (simp add: locator_of_def field_of_def)
  with run h1 h2 show ?thesis by simp
qed

section \<open>Properties of the synthesis providers\<close>

lemma summarizeWithOpenAI_result:
  "summarizeWithOpenAI w q cs s =
     (case (case openai_answer w q cs s of Inl e \<Rightarrow> Inl e | Inr d \<Rightarrow> openai_text d) of
        Inr v \<Rightarrow>
          (Inr v, s\<lparr>trace := trace s @ [Invoked (SummarizeWithOpenAI q cs),
                                         AxiosPostOpenAI (openai_body q cs),
                                         Returned (SummarizeWithOpenAI q cs) v]\<rparr>)
      | Inl e \<Rightarrow>
          (Inr (lit ''Error generating summary.''),
           s\<lparr>trace := trace s @ [Invoked (SummarizeWithOpenAI q cs),
                                  AxiosPostOpenAI (openai_body q cs),
                                  Console (OpenAIError e),
                                  Returned (SummarizeWithOpenAI q cs) (lit ''Error generating summary.'')]\<rparr>))"
  by (simp add: summarizeWithOpenAI_def openai_answer_def emit_def Let_def split: sum.splits)

lemma summarizeWithGemini_result:
  "summarizeWithGemini w q cs s =
     (case (case gemini_answer w q cs s of Inl e \<Rightarrow> Inl e | Inr d \<Rightarrow> gemini_text d) of
        Inr r \<Rightarrow>
          (Inr (case r of Some t \<Rightarrow> if t \<noteq> [] then t else lit ''Error generating summary.''
                     | None \<Rightarrow> lit ''Error generating summary.''),
           s\<lparr>trace := trace s @ [Invoked (SummarizeWithGemini q cs),
                                  AxiosPostGemini (gemini_body q cs),
                                  Returned (SummarizeWithGemini q cs)
                                    (case r of Some t \<Rightarrow> if t \<noteq> [] then t else lit ''Error generating summary.''
                     | None \<Rightarrow> lit ''Error generating summary.'')]\<rparr>)
      | Inl e \<Rightarrow>
          (Inr (lit ''Error generating summary.''),
           s\<lparr>trace := trace s @ [Invoked (SummarizeWithGemini q cs),
                                  AxiosPostGemini (gemini_body q cs),
                                  Console (GeminiError e),
                                  Returned (SummarizeWithGemini q cs) (lit ''Error generating summary.'')]\<rparr>))"
  by (simp add: summarizeWithGemini_def gemini_answer_def emit_def Let_def split: sum.splits)

lemma missing_cases: "missing r \<longleftrightarrow> (\<exists>e. r = Inl e) \<or> r = Inr JUndefined \<or> r = Inr JNull"
proof (cases r)
  case (Inl e)
  then show ?thesis by (simp add: missing_def)
next
  case (Inr v)
  then show ?thesis by (cases v) (simp_all add: missing_def)
qed

lemma js_prop_nullish [simp]: "nullish v \<Longrightarrow> js_prop v k = Inl TypeError"
  by (cases v) simp_all

lemma js_first_nullish [simp]: "nullish v \<Longrightarrow> js_first v = Inl TypeError"
  by (cases v) simp_all

lemma js_trim_call_nullish [simp]: "nullish v \<Longrightarrow> js_trim_call v = Inl TypeError"
  by (cases v) simp_all

lemma Inr_not_nullish_prop: "js_prop v k = Inr x \<Longrightarrow> \<not> nullish v"
  by (cases v) simp_all

lemma Inr_not_nullish_first: "js_first v = Inr x \<Longrightarrow> \<not> nullish v"
  by (cases v) simp_all

lemma Inr_trim_call: "js_trim_call v = Inr r \<Longrightarrow> \<exists>t. v = JStr t \<and> r = js_trim t"
  by (cases v) simp_all

lemma openai_text_shape:
  assumes "openai_text d = Inr r"
  shows "\<exists>choices c0 m t.
           js_prop d (lit ''choices'') = Inr choices \<and> js_first choices = Inr c0
           \<and> js_prop c0 (lit ''message'') = Inr m \<and> js_prop m (lit ''content'') = Inr (JStr t)
           \<and> r = js_trim t"
proof -
  from assms obtain choices where 1: "js_prop d (lit ''choices'') = Inr choices"
    by (cases "js_prop d (lit ''choices'')") (simp_all add: openai_text_def)
  from assms 1 obtain c0 where 2: "js_first choices = Inr c0"
    by (cases "js_first choices") (simp_all add: openai_text_def)
  from assms 1 2 obtain m where 3: "js_prop c0 (lit ''message'') = Inr m"
    by (cases "js_prop c0 (lit ''message'')") (simp_all add: openai_text_def)
  from assms 1 2 3 obtain c where 4: "js_prop m (lit ''content'') = Inr c"
    by (cases "js_prop m (lit ''content'')") (simp_all add: openai_text_def)
  from assms 1 2 3 4 have "js_trim_call c = Inr r" by (simp add: openai_text_def)
  from Inr_trim_call [OF this] 1 2 3 4 show ?thesis by blast
qed

lemma openai_malformed_throws:
  assumes "openai_malformed d"
  shows "\<exists>e. openai_text d = Inl e"
proof (cases "openai_text d")
  case (Inl e)
  then show ?thesis by blast
next
  case (Inr r)
  from openai_text_shape [OF this] obtain choices c0 m t where
    1: "js_prop d (lit ''choices'') = Inr choices" and 2: "js_first choices = Inr c0"
    and 3: "js_prop c0 (lit ''message'') = Inr m" and 4: "js_prop m (lit ''content'') = Inr (JStr t)"
    by blast
  from 2 have n1: "\<not> nullish choices" by (rule Inr_not_nullish_first)
  from 3 have n2: "\<not> nullish c0" by (rule Inr_not_nullish_prop)
  from 4 have n3: "\<not> nullish m" by (rule Inr_not_nullish_prop)
  from 1 2 3 4 n1 n2 n3 have "\<not> openai_malformed d"
    by (simp add: openai_malformed_def missing_def not_a_string_def field_of_def)
  with assms show ?thesis by simp
qed

lemma gemini_text_shape:
  assumes "gemini_text d = Inr (Some r)"
  shows "\<exists>candidates c0 c parts p0 t.
           js_prop d (lit ''candidates'') = Inr candidates \<and> js_first candidates = Inr c0
           \<and> \<not> nullish c0 \<and> js_prop c0 (lit ''content'') = Inr c \<and> \<not> nullish c
           \<and> js_prop c (lit ''parts'') = Inr parts \<and> js_first parts = Inr p0 \<and> \<not> nullish p0
           \<and> js_prop p0 (lit ''text'') = Inr (JStr t) \<and> r = js_trim t"
proof -
  from assms obtain candidates where 1: "js_prop d (lit ''candidates'') = Inr candidates"
    by (cases "js_prop d (lit ''candidates'')") (simp_all add: gemini_text_def)
  from assms 1 obtain c0 where 2: "js_first candidates = Inr c0"
    by (cases "js_first candidates") (simp_all add: gemini_text_def)
  from assms 1 2 have n0: "\<not> nullish c0"
    by (auto simp: gemini_text_def)
  from assms 1 2 n0 obtain c where 3: "js_prop c0 (lit ''content'') = Inr c"
    by (cases "js_prop c0 (lit ''content'')") (simp_all add: gemini_text_def)
  from assms 1 2 n0 3 have n1: "\<not> nullish c"
    by (auto simp: gemini_text_def)
  from assms 1 2 n0 3 n1 obtain parts where 4: "js_prop c (lit ''parts'') = Inr parts"
    by (cases "js_prop c (lit ''parts'')") (simp_all add: gemini_text_def)
  from assms 1 2 n0 3 n1 4 obtain p0 where 5: "js_first parts = Inr p0"
    by (cases "js_first parts") (simp_all add: gemini_text_def)
  from assms 1 2 n0 3 n1 4 5 have n2: "\<not> nullish p0"
    by (auto simp: gemini_text_def)
  from assms 1 2 n0 3 n1 4 5 n2 obtain tv where 6: "js_prop p0 (lit ''text'') = Inr tv"
    by (cases "js_prop p0 (lit ''text'')") (simp_all add: gemini_text_def)
  from assms 1 2 n0 3 n1 4 5 n2 6 have "js_trim_call tv = Inr r"
    by (cases "js_trim_call tv") (simp_all add: gemini_text_def)
  from Inr_trim_call [OF this] 1 2 n0 3 n1 4 5 n2 6 show ?thesis by blast
qed

lemma gemini_malformed_sentinel:
  assumes "gemini_malformed d"
  shows "(\<exists>e. gemini_text d = Inl e) \<or> gemini_text d = Inr None"
proof (cases "gemini_text d")
  case (Inl e)
  then show ?thesis by blast
next
  case (Inr r)
  show ?thesis
  proof (cases r)
    case None
    with Inr show ?thesis by simp
  next
    case (Some t)
    with Inr have "gemini_text d = Inr (Some t)" by simp
    from gemini_text_shape [OF this] obtain candidates c0 c parts p0 tx where
      1: "js_prop d (lit ''candidates'') = Inr candidates" and 2: "js_first candidates = Inr c0"
      and n0: "\<not> nullish c0" and 3: "js_prop c0 (lit ''content'') = Inr c" and n1: "\<not> nullish c"
      and 4: "js_prop c (lit ''parts'') = Inr parts" and 5: "js_first parts = Inr p0"
      and n2: "\<not> nullish p0" and 6: "js_prop p0 (lit ''text'') = Inr (JStr tx)"
      by blast
    from 2 have m1: "\<not> nullish candidates" by (rule Inr_not_nullish_first)
    from 5 have m2: "\<not> nullish parts" by (rule Inr_not_nullish_first)
    from 1 2 3 4 5 6 n0 n1 n2 m1 m2 have "\<not> gemini_malformed d"
      by (simp add: gemini_malformed_def missing_def not_a_string_def field_of_def)
    with assms show ?thesis by simp
  qed
qed

text \<open>
  Claim C7. Both \<open>summarizeWithOpenAI\<close> and \<open>summarizeWithGemini\<close> always return a
  string (no error leaves them) after posting exactly one request (there is no retry).
  When the request fails, or when the response body misses a field on the way to the
  answer text (\<open>choices\<close> or \<open>candidates\<close>, their first element, \<open>message\<close>,
  \<open>content\<close>, \<open>parts\<close>, its first element, \<open>text\<close>; an empty response misses the
  first), the string returned is \<open>Error generating summary.\<close>
\<close>

theorem synthesis_failure_gives_sentinel:
  "(\<exists>v evs. summarizeWithOpenAI w q cs s = (Inr v, s\<lparr>trace := trace s @ evs\<rparr>)
        \<and> posted evs = [openai_body q cs]
        \<and> ((case openai_answer w q cs s of Inl e \<Rightarrow> True | Inr d \<Rightarrow> openai_malformed d)
             \<longrightarrow> v = lit ''Error generating summary.''))
   \<and> (\<exists>v evs. summarizeWithGemini w q cs s = (Inr v, s\<lparr>trace := trace s @ evs\<rparr>)
        \<and> posted evs = [gemini_body q cs]
        \<and> ((case gemini_answer w q cs s of Inl e \<Rightarrow> True | Inr d \<Rightarrow> gemini_malformed d)
             \<longrightarrow> v = lit ''Error generating summary.''))"
proof (rule conjI)
  let ?r = "case openai_answer w q cs s of Inl e \<Rightarrow> Inl e | Inr d \<Rightarrow> openai_text d"
  have bad: "(case openai_answer w q cs s of Inl e \<Rightarrow> True | Inr d \<Rightarrow> openai_malformed d)
             \<Longrightarrow> \<exists>e. ?r = Inl e"
    using openai_malformed_throws by (cases "openai_answer w q cs s") simp_all
  show "\<exists>v evs. summarizeWithOpenAI w q cs s = (Inr v, s\<lparr>trace := trace s @ evs\<rparr>)
        \<and> posted evs = [openai_body q cs]
        \<and> ((case openai_answer w q cs s of Inl e \<Rightarrow> True | Inr d \<Rightarrow> openai_malformed d)
             \<longrightarrow> v = lit ''Error generating summary.'')"
  proof (cases ?r)
    case (Inl e)
    let ?evs = "[Invoked (SummarizeWithOpenAI q cs), AxiosPostOpenAI (openai_body q cs),
                 Console (OpenAIError e),
                 Returned (SummarizeWithOpenAI q cs) (lit ''Error generating summary.'')]"
    from Inl have "summarizeWithOpenAI w q cs s
        = (Inr (lit ''Error generating summary.''), s\<lparr>trace := trace s @ ?evs\<rparr>)"
      by (simp add: summarizeWithOpenAI_result)
    moreover have "posted ?evs = [openai_body q cs]" by simp
    ultimately show ?thesis by blast
  next
    case (Inr v)
    let ?evs = "[Invoked (SummarizeWithOpenAI q cs), AxiosPostOpenAI (openai_body q cs),
                 Returned (SummarizeWithOpenAI q cs) v]"
    from Inr have "summarizeWithOpenAI w q cs s = (Inr v, s\<lparr>trace := trace s @ ?evs\<rparr>)"
      by (simp add: summarizeWithOpenAI_result)
    moreover have "posted ?evs = [openai_body q cs]" by simp
    moreover have "\<not> (case openai_answer w q cs s of Inl e \<Rightarrow> True | Inr d \<Rightarrow> openai_malformed d)"
      using bad Inr by auto
    ultimately show ?thesis by blast
  qed
next
  let ?r = "case gemini_answer w q cs s of Inl e \<Rightarrow> Inl e | Inr d \<Rightarrow> gemini_text d"
  have bad: "(case gemini_answer w q cs s of Inl e \<Rightarrow> True | Inr d \<Rightarrow> gemini_malformed d)
             \<Longrightarrow> (\<exists>e. ?r = Inl e) \<or> ?r = Inr None"
    using gemini_malformed_sentinel by (cases "gemini_answer w q cs s") simp_all
  show "\<exists>v evs. summarizeWithGemini w q cs s = (Inr v, s\<lparr>trace := trace s @ evs\<rparr>)
        \<and> posted evs = [gemini_body q cs]
        \<and> ((case gemini_answer w q cs s of Inl e \<Rightarrow> True | Inr d \<Rightarrow> gemini_malformed d)
             \<longrightarrow> v = lit ''Error generating summary.'')"
  proof (cases ?r)
    case (Inl e)
    let ?evs = "[Invoked (SummarizeWithGemini q cs), AxiosPostGemini (gemini_body q cs),
                 Console (GeminiError e),
                 Returned (SummarizeWithGemini q cs) (lit ''Error generating summary.'')]"
    from Inl have "summarizeWithGemini w q cs s
        = (Inr (lit ''Error generating summary.''), s\<lparr>trace := trace s @ ?evs\<rparr>)"
      by (simp add: summarizeWithGemini_result)
    moreover have "posted ?evs = [gemini_body q cs]" by simp
    ultimately show ?thesis by blast
  next
    case (Inr r)
    let ?v = "case r of Some t \<Rightarrow> if t \<noteq> [] then t else lit ''Error generating summary.''
                     | None \<Rightarrow> lit ''Error generating summary.''"
    let ?evs = "[Invoked (SummarizeWithGemini q cs), AxiosPostGemini (gemini_body q cs),
                 Returned (SummarizeWithGemini q cs) ?v]"
    from Inr have "summarizeWithGemini w q cs s = (Inr ?v, s\<lparr>trace := trace s @ ?evs\<rparr>)"
      by (simp add: summarizeWithGemini_result)
    moreover have "posted ?evs = [gemini_body q cs]" by simp
    moreover have "(case gemini_answer w q cs s of Inl e \<Rightarrow> True | Inr d \<Rightarrow> gemini_malformed d)
             \<longrightarrow> ?v = lit ''Error generating summary.''"
      using bad Inr by auto
    ultimately show ?thesis by blast
  qed
qed

theorem synthesis_failure_gives_sentinel_witness:
  "openai_answer no_choices_world (lit ''x'') [lit ''a''] fresh = Inr (JObj [(lit ''choices'', JArr [])])
   \<and> openai_malformed (JObj [(lit ''choices'', JArr [])])
   \<and> fst (summarizeWithOpenAI no_choices_world (lit ''x'') [lit ''a''] fresh)
       = Inr (lit ''Error generating summary.'')
   \<and> gemini_answer no_choices_world (lit ''x'') [lit ''a''] fresh
       = Inr (JObj [(lit ''candidates'', JArr [JObj []])])
   \<and> gemini_malformed (JObj [(lit ''candidates'', JArr [JObj []])])
   \<and> fst (summarizeWithGemini no_choices_world (lit ''x'') [lit ''a''] fresh)
       = Inr (lit ''Error generating summary.'')"
proof -
  have a1: "openai_answer no_choices_world (lit ''x'') [lit ''a''] fresh = Inr (JObj [(lit ''choices'', JArr [])])"
    by (simp add: openai_answer_def no_choices_world_def calm_def)
  have m1: "openai_malformed (JObj [(lit ''choices'', JArr [])])"
    by (simp add: openai_malformed_def missing_def not_a_string_def field_of_def)
  have a2: "gemini_answer no_choices_world (lit ''x'') [lit ''a''] fresh
       = Inr (JObj [(lit ''candidates'', JArr [JObj []])])"
    by (simp add: gemini_answer_def no_choices_world_def calm_def)
  have m2: "gemini_malformed (JObj [(lit ''candidates'', JArr [JObj []])])"
    by (simp add: gemini_malformed_def missing_def not_a_string_def field_of_def)
  from synthesis_failure_gives_sentinel [of no_choices_world "lit ''x''" "[lit ''a'']" fresh]
    a1 m1 a2 m2
  show ?thesis by auto
qed

lemma summarizeWithGemini_nonempty:
  "\<exists>v s'. summarizeWithGemini w q cs s = (Inr v, s') \<and> v \<noteq> []"
proof (cases "case gemini_answer w q cs s of Inl e \<Rightarrow> Inl e | Inr d \<Rightarrow> gemini_text d")
  case (Inl e)
  then show ?thesis by (simp add: summarizeWithGemini_result)
next
  case (Inr r)
  then show ?thesis by (cases r) (simp_all add: summarizeWithGemini_result)
qed

text \<open>
  Claim C9 holds for \<open>summarizeWithGemini\<close>, whose result falls back to the sentinel
  when the text is empty, and fails for \<open>summarizeWithOpenAI\<close>, which has no such
  fallback: a response whose \<open>content\<close> is the empty string (or white space only) makes
  it return the empty string.
\<close>

theorem openai_returns_empty_string:
  "fst (summarizeWithOpenAI empty_answer_world (lit ''x'') [lit ''a''] fresh) = Inr []"
  by (simp add: summarizeWithOpenAI_result openai_answer_def empty_answer_world_def calm_def
                openai_text_def js_trim_def)

lemma openai_empty_only_for_blank_text:
  assumes "summarizeWithOpenAI w q cs s = (Inr [], s')"
  shows "\<exists>d. openai_answer w q cs s = Inr d \<and> openai_text d = Inr []"
proof (cases "case openai_answer w q cs s of Inl e \<Rightarrow> Inl e | Inr d \<Rightarrow> openai_text d")
  case (Inl e)
  with assms show ?thesis by (simp add: summarizeWithOpenAI_result)
next
  case (Inr v)
  with assms have "v = []" by (simp add: summarizeWithOpenAI_result)
  with Inr show ?thesis by (cases "openai_answer w q cs s") simp_all
qed

lemma gemini_empty_text_gives_sentinel:
  "fst (summarizeWithGemini empty_answer_world (lit ''x'') [lit ''a''] fresh)
     = Inr (lit ''Error generating summary.'')"
  by (simp add: summarizeWithGemini_result gemini_answer_def empty_answer_world_def calm_def
                gemini_text_def js_trim_def)

section \<open>Properties of the orchestrator\<close>

lemma main_no_results:
  assumes "googleSearch cfg w (query cfg) (emit (Console (Searching (query cfg))) s0) = (Inr [], s2)"
  shows "main cfg w s0 = (Inr (), emit (Console NoResultsFound) s2)"
  using assms by (simp add: main_def Let_def)

text \<open>
  Claim C5. \<open>googleSearch\<close> never throws: it returns a list, and the empty list when
  the request failed (the error is printed, not propagated). Whenever it returns the
  empty list, \<open>main\<close> prints \<open>No results found.\<close> and returns; the run consists of the
  search request and printed lines only, with no call of a fetch strategy or of a
  synthesis provider.
\<close>

theorem no_results_short_circuit:
  "\<exists>rs errs s2.
      googleSearch cfg w (query cfg) (emit (Console (Searching (query cfg))) s0) = (Inr rs, s2)
      \<and> trace s2 = trace s0 @ [Console (Searching (query cfg)), AxiosGetSearch (query cfg)] @ errs
      \<and> (errs = [] \<or> (\<exists>e. errs = [Console (GoogleSearchError e)]))
      \<and> ((\<exists>e. search_reply w (trace s0 @ [Console (Searching (query cfg)),
                                             AxiosGetSearch (query cfg)]) (query cfg) = Inl e)
           \<longrightarrow> rs = [])
      \<and> ((\<exists>d. search_reply w (trace s0 @ [Console (Searching (query cfg)),
                                             AxiosGetSearch (query cfg)]) (query cfg) = Inr d
                \<and> js_prop d (lit ''items'') = Inr (JArr []))
           \<longrightarrow> rs = [])
      \<and> (rs = [] \<longrightarrow>
           (\<exists>s'. main cfg w s0 = (Inr (), s')
              \<and> trace s' = trace s0 @ [Console (Searching (query cfg)), AxiosGetSearch (query cfg)]
                            @ errs @ [Console NoResultsFound]))"
proof -
  let ?s1 = "emit (Console (Searching (query cfg))) s0"
  from googleSearch_total [of cfg w "query cfg" ?s1]
  obtain rs errs where run: "googleSearch cfg w (query cfg) ?s1
        = (Inr rs, ?s1\<lparr>trace := trace ?s1 @ AxiosGetSearch (query cfg) # errs\<rparr>)"
    and errs: "errs = [] \<or> (rs = [] \<and> (\<exists>e. errs = [Console (GoogleSearchError e)]))"
    by blast
  let ?s2 = "?s1\<lparr>trace := trace ?s1 @ AxiosGetSearch (query cfg) # errs\<rparr>"
  have tr: "trace ?s2 = trace s0 @ [Console (Searching (query cfg)), AxiosGetSearch (query cfg)] @ errs"
    by (simp add: emit_def)
  have err: "(\<exists>e. search_reply w (trace s0 @ [Console (Searching (query cfg)),
                                             AxiosGetSearch (query cfg)]) (query cfg) = Inl e)
           \<longrightarrow> rs = []"
  proof
    assume "\<exists>e. search_reply w (trace s0 @ [Console (Searching (query cfg)),
                                             AxiosGetSearch (query cfg)]) (query cfg) = Inl e"
    then obtain e where "search_reply w (trace ?s1 @ [AxiosGetSearch (query cfg)]) (query cfg) = Inl e"
      by (auto simp: emit_def)
    from googleSearch_error [OF this, of cfg] run show "rs = []" by simp
  qed
  have zero: "(\<exists>d. search_reply w (trace s0 @ [Console (Searching (query cfg)),
                                             AxiosGetSearch (query cfg)]) (query cfg) = Inr d
                \<and> js_prop d (lit ''items'') = Inr (JArr []))
           \<longrightarrow> rs = []"
  proof
    assume "\<exists>d. search_reply w (trace s0 @ [Console (Searching (query cfg)),
                                             AxiosGetSearch (query cfg)]) (query cfg) = Inr d
                \<and> js_prop d (lit ''items'') = Inr (JArr [])"
    then obtain d where "search_reply w (trace ?s1 @ [AxiosGetSearch (query cfg)]) (query cfg) = Inr d"
      and "js_prop d (lit ''items'') = Inr (JArr [])"
      by (auto simp: emit_def)
    from googleSearch_no_items [OF this, of cfg] run show "rs = []" by simp
  qed
  have fin: "rs = [] \<longrightarrow>
           (\<exists>s'. main cfg w s0 = (Inr (), s')
              \<and> trace s' = trace s0 @ [Console (Searching (query cfg)), AxiosGetSearch (query cfg)]
                            @ errs @ [Console NoResultsFound])"
  proof
    assume "rs = []"
    with run have "main cfg w s0 = (Inr (), emit (Console NoResultsFound) ?s2)"
      by (simp add: main_no_results)
    moreover have "trace (emit (Console NoResultsFound) ?s2)
        = trace s0 @ [Console (Searching (query cfg)), AxiosGetSearch (query cfg)]
                            @ errs @ [Console NoResultsFound]"
      by (simp add: emit_def)
    ultimately show "\<exists>s'. main cfg w s0 = (Inr (), s')
              \<and> trace s' = trace s0 @ [Console (Searching (query cfg)), AxiosGetSearch (query cfg)]
                            @ errs @ [Console NoResultsFound]" by blast
  qed
  from run tr errs err zero fin show ?thesis by blast
qed

theorem no_results_short_circuit_witness:
  "search_reply search_fails_world
     (trace fresh @ [Console (Searching (query cfg_x)), AxiosGetSearch (query cfg_x)]) (query cfg_x)
     = Inl (Thrown (lit ''Network Error'') JUndefined)
   \<and> (\<exists>s'. main cfg_x search_fails_world fresh = (Inr (), s')
         \<and> trace s' = [Console (Searching (lit ''x'')), AxiosGetSearch (lit ''x''),
                       Console (GoogleSearchError (Thrown (lit ''Network Error'') JUndefined)),
                       Console NoResultsFound])"
proof -
  have h: "search_reply search_fails_world
     (trace fresh @ [Console (Searching (query cfg_x)), AxiosGetSearch (query cfg_x)]) (query cfg_x)
     = Inl (Thrown (lit ''Network Error'') JUndefined)"
    by (simp add: search_fails_world_def calm_def)
  have g: "googleSearch cfg_x search_fails_world (query cfg_x) (emit (Console (Searching (query cfg_x))) fresh)
     = (Inr [], \<lparr>trace = [Console (Searching (lit ''x'')), AxiosGetSearch (lit ''x''),
                       Console (GoogleSearchError (Thrown (lit ''Network Error'') JUndefined))],
                 live = [], launched = 0\<rparr>)"
    by (simp add: googleSearch_def googleSearch_try_def emit_def search_fails_world_def calm_def
                  cfg_x_def fresh_def Let_def)
  from no_results_short_circuit [of cfg_x search_fails_world fresh]
  obtain rs errs s2 where
    run: "googleSearch cfg_x search_fails_world (query cfg_x) (emit (Console (Searching (query cfg_x))) fresh) = (Inr rs, s2)"
    and tr: "trace s2 = trace fresh @ [Console (Searching (query cfg_x)), AxiosGetSearch (query cfg_x)] @ errs"
    and fin: "rs = [] \<longrightarrow>
           (\<exists>s'. main cfg_x search_fails_world fresh = (Inr (), s')
              \<and> trace s' = trace fresh @ [Console (Searching (query cfg_x)), AxiosGetSearch (query cfg_x)]
                            @ errs @ [Console NoResultsFound])"
    by blast
  from run g have rs: "rs = []" and s2: "s2 = \<lparr>trace = [Console (Searching (lit ''x'')), AxiosGetSearch (lit ''x''),
                       Console (GoogleSearchError (Thrown (lit ''Network Error'') JUndefined))],
                 live = [], launched = 0\<rparr>" by simp_all
  from tr s2 have "errs = [Console (GoogleSearchError (Thrown (lit ''Network Error'') JUndefined))]"
    by (simp add: fresh_def cfg_x_def)
  with fin rs h show ?thesis by (simp add: fresh_def cfg_x_def)
qed

lemma invocations_append [simp]: "invocations (xs @ ys) = invocations xs @ invocations ys"
  by (induction xs rule: invocations.induct) simp_all

lemma returns_append [simp]: "returns (xs @ ys) = returns xs @ returns ys"
  by (induction xs rule: returns.induct) simp_all









text \<open>
  Claim C10. When the selector is neither \<open>puppeteer\<close> nor \<open>cheerio\<close> and the search
  returned at least one locator, \<open>main\<close> returns in the first iteration of the loop:
  after the search, the run only prints three lines (the last being \<open>Invalid fetch
  library specified.\<close>), with no call of a fetch strategy or of a synthesis provider and
  no summary.
\<close>

theorem invalid_fetch_library_aborts:
  assumes "fetchLibrary cfg \<noteq> lit ''puppeteer''" and "fetchLibrary cfg \<noteq> lit ''cheerio''"
      and "googleSearch cfg w (query cfg) (emit (Console (Searching (query cfg))) s0) = (Inr locs, s2)"
      and "locs \<noteq> []"
  shows "main cfg w s0
         = (Inr (), s0\<lparr>trace := trace s0 @ [Console (Searching (query cfg)),
                                             AxiosGetSearch (query cfg),
                                             Console (FetchingTop (numResults cfg)),
                                             Console (FetchingFrom (link (hd locs))),
                                             Console InvalidFetchLibrary]\<rparr>)"
proof -
  from assms(4) obtain l rest where locs: "locs = l # rest" by (cases locs) simp_all
  from googleSearch_nonempty [OF assms(3) assms(4)]
  have s2: "s2 = s0\<lparr>trace := trace s0 @ [Console (Searching (query cfg)), AxiosGetSearch (query cfg)]\<rparr>"
    by (simp add: emit_def)
  from assms(1) assms(2) have
    "fetch_loop cfg w (l # rest) [] (emit (Console (FetchingTop (numResults cfg))) s2)
       = (Inr None, s2\<lparr>trace := trace s2 @ [Console (FetchingTop (numResults cfg)),
                                             Console (FetchingFrom (link l)),
                                             Console InvalidFetchLibrary]\<rparr>)"
    by (simp add: emit_def Let_def)
  with assms(3) locs s2 show ?thesis by (simp add: main_def Let_def)
qed

theorem invalid_fetch_library_aborts_witness:
  "fetchLibrary (cfg_x\<lparr>fetchLibrary := lit ''axios''\<rparr>) \<noteq> lit ''puppeteer''
   \<and> fetchLibrary (cfg_x\<lparr>fetchLibrary := lit ''axios''\<rparr>) \<noteq> lit ''cheerio''
   \<and> fst (googleSearch (cfg_x\<lparr>fetchLibrary := lit ''axios''\<rparr>) two_items_world (lit ''x'')
            (emit (Console (Searching (lit ''x''))) fresh))
       = Inr [\<lparr>title = JStr (lit ''A''), link = JStr (lit ''a'')\<rparr>,
              \<lparr>title = JStr (lit ''B''), link = JStr (lit ''b'')\<rparr>]
   \<and> main (cfg_x\<lparr>fetchLibrary := lit ''axios''\<rparr>) two_items_world fresh
       = (Inr (), \<lparr>trace = [Console (Searching (lit ''x'')), AxiosGetSearch (lit ''x''),
                             Console (FetchingTop 5), Console (FetchingFrom (JStr (lit ''a''))),
                             Console InvalidFetchLibrary],
                   live = [], launched = 0\<rparr>)"
proof -
  let ?cfg = "cfg_x\<lparr>fetchLibrary := lit ''axios''\<rparr>"
  let ?locs = "[\<lparr>title = JStr (lit ''A''), link = JStr (lit ''a'')\<rparr>,
                \<lparr>title = JStr (lit ''B''), link = JStr (lit ''b'')\<rparr>]"
  let ?s2 = "\<lparr>trace = [Console (Searching (lit ''x'')), AxiosGetSearch (lit ''x'')],
              live = [], launched = 0\<rparr>"
  have h1: "fetchLibrary ?cfg \<noteq> lit ''puppeteer''" by simp
  have h2: "fetchLibrary ?cfg \<noteq> lit ''cheerio''" by simp
  have h3: "googleSearch ?cfg two_items_world (query ?cfg) (emit (Console (Searching (query ?cfg))) fresh)
            = (Inr ?locs, ?s2)"
    by (simp add: googleSearch_def googleSearch_try_def emit_def two_items_world_def calm_def
                  cfg_x_def fresh_def js_slice_def Let_def)
  then have g: "fst (googleSearch ?cfg two_items_world (lit ''x'')
            (emit (Console (Searching (lit ''x''))) fresh)) = Inr ?locs"
    by (simp add: cfg_x_def)
  have h4: "?locs \<noteq> []" by simp
  from invalid_fetch_library_aborts [OF h1 h2 h3 h4] h1 h2 g show ?thesis
    by (simp add: cfg_x_def fresh_def)
qed

lemma prompts_embed_query_and_excerpts:
  "occurs q (openai_prompt q cs)
   \<and> occurs (js_join (lit ''\<newline>\<newline>'') cs) (openai_prompt q cs)
   \<and> occurs q (gemini_prompt q cs)
   \<and> occurs (js_join (lit ''\<newline>\<newline>'') cs) (gemini_prompt q cs)"
proof -
  have e: "occurs p (a @ q' @ b @ p)" for p a q' b :: jsstring
    using occurs_append [of p "a @ q' @ b" "[]"] by simp
  show ?thesis
    unfolding openai_prompt_def gemini_prompt_def
    using occurs_append e by blast
qed

lemma main_openai_run:
  "posted (trace (snd (main cfg_x two_items_world fresh)))
     = [openai_body (lit ''x'') [lit ''No meaningful content found.'', lit ''No meaningful content found.'']]"
  by (simp add: main_def googleSearch_def googleSearch_try_def cheerio_result
                summarizeWithOpenAI_result openai_answer_def openai_text_def
                emit_def two_items_world_def calm_def cfg_x_def fresh_def js_slice_def js_trim_def Let_def)

lemma main_gemini_run:
  "posted (trace (snd (main (cfg_x\<lparr>model := JStr (lit ''gemini'')\<rparr>) two_items_world fresh)))
     = [gemini_body (lit ''x'') [lit ''No meaningful content found.'', lit ''No meaningful content found.'']]"
  by (simp add: main_def googleSearch_def googleSearch_try_def cheerio_result
                summarizeWithGemini_result gemini_answer_def gemini_text_def
                emit_def two_items_world_def calm_def cfg_x_def fresh_def js_slice_def js_trim_def Let_def)

lemma openai_strings:
  "filter (occurs (lit ''No results.''))
     (strings_of (openai_body (lit ''x'') [lit ''No meaningful content found.'', lit ''No meaningful content found.''])) = []"
  by (simp add: openai_body_def openai_messages_def openai_prompt_def lit_append lit_append2 occurs_lit)

lemma gemini_strings:
  "filter (occurs (lit ''No results.''))
     (strings_of (gemini_body (lit ''x'') [lit ''No meaningful content found.'', lit ''No meaningful content found.''])) = []"
  by (simp add: gemini_body_def gemini_prompt_def lit_append lit_append2 occurs_lit)

text \<open>
  Claim C6 holds but for its last part. Both providers post one request whose prompt
  embeds the query and the excerpts joined by a blank line and asks for new content.
  \<open>main\<close> builds the instruction to say \<open>No results.\<close> in its variable \<open>instructions\<close>
  and then passes \<open>query\<close>, not \<open>instructions\<close>, to the provider: for the query \<open>x\<close> and
  two pages without content, no string of the posted request contains \<open>No results.\<close>
\<close>

theorem prompt_lacks_no_results_instruction:
  "posted (trace (snd (main cfg_x two_items_world fresh)))
     = [openai_body (lit ''x'') [lit ''No meaningful content found.'', lit ''No meaningful content found.'']]
   \<and> filter (occurs (lit ''No results.''))
        (strings_of (openai_body (lit ''x'') [lit ''No meaningful content found.'', lit ''No meaningful content found.''])) = []
   \<and> posted (trace (snd (main (cfg_x\<lparr>model := JStr (lit ''gemini'')\<rparr>) two_items_world fresh)))
     = [gemini_body (lit ''x'') [lit ''No meaningful content found.'', lit ''No meaningful content found.'']]
   \<and> filter (occurs (lit ''No results.''))
        (strings_of (gemini_body (lit ''x'') [lit ''No meaningful content found.'', lit ''No meaningful content found.''])) = []"
  using main_openai_run openai_strings main_gemini_run gemini_strings by simp

end
